theory Spec2Isabelle
  imports Complex_Main
begin

section \<open>Dates\<close>

text \<open>
  The controller computes with JavaScript \<^verbatim>\<open>Date\<close> objects. A date is modelled by its
  local time value: the number of milliseconds since the local epoch 1970-01-01 00:00,
  the offset to UTC being taken constant. The field functions follow the ECMAScript
  definitions (Day, TimeWithinDay, DayFromYear, YearFromTime, MonthFromTime,
  DateFromTime, MakeDay, MakeTime, MakeDate); months count from 0 as in JavaScript.
\<close>

type_synonym time = int

definition msPerDay :: int where
  "msPerDay = 86400000"

definition Day :: "time \<Rightarrow> int" where
  "Day t = t div msPerDay"

definition TimeWithinDay :: "time \<Rightarrow> int" where
  "TimeWithinDay t = t mod msPerDay"

definition DayFromYear :: "int \<Rightarrow> int" where
  "DayFromYear y =
     365 * (y - 1970) + (y - 1969) div 4 - (y - 1901) div 100 + (y - 1601) div 400"

definition DaysInYear :: "int \<Rightarrow> int" where
  "DaysInYear y =
     (if y mod 4 \<noteq> 0 then 365 else if y mod 100 \<noteq> 0 then 366
      else if y mod 400 \<noteq> 0 then 365 else 366)"

definition InLeapYear :: "int \<Rightarrow> bool" where
  "InLeapYear y = (DaysInYear y = 366)"

text \<open>The largest year whose first day is not after day \<open>d\<close>, found by a downward
  search from a year that is late enough.\<close>

function year_search :: "int \<Rightarrow> int \<Rightarrow> int" where
  "year_search y d = (if DayFromYear y \<le> d then y else year_search (y - 1) d)"
  by pat_completeness auto
termination
  by (relation "measure (\<lambda>(y, d). nat (DayFromYear y - d))")
     (auto simp: DayFromYear_def)

declare year_search.simps [simp del]

definition YearFromDay :: "int \<Rightarrow> int" where
  "YearFromDay d = year_search (1971 + max 0 (d div 365)) d"

definition YearFromTime :: "time \<Rightarrow> int" where
  "YearFromTime t = YearFromDay (Day t)"

definition DayWithinYear :: "time \<Rightarrow> int" where
  "DayWithinYear t = Day t - DayFromYear (YearFromTime t)"

text \<open>The number of days of the year before month \<open>m\<close> (0 = January).\<close>

definition DaysBeforeMonth :: "int \<Rightarrow> bool \<Rightarrow> int" where
  "DaysBeforeMonth m leap =
     (let l = (if leap then 1 else 0) in
      if m = 0 then 0 else if m = 1 then 31 else if m = 2 then 59 + l
      else if m = 3 then 90 + l else if m = 4 then 120 + l else if m = 5 then 151 + l
      else if m = 6 then 181 + l else if m = 7 then 212 + l else if m = 8 then 243 + l
      else if m = 9 then 273 + l else if m = 10 then 304 + l else 334 + l)"

definition MonthFromTime :: "time \<Rightarrow> int" where
  "MonthFromTime t =
     (let d = DayWithinYear t; l = (if InLeapYear (YearFromTime t) then 1 else 0) in
      if d < 31 then 0 else if d < 59 + l then 1 else if d < 90 + l then 2
      else if d < 120 + l then 3 else if d < 151 + l then 4 else if d < 181 + l then 5
      else if d < 212 + l then 6 else if d < 243 + l then 7 else if d < 273 + l then 8
      else if d < 304 + l then 9 else if d < 334 + l then 10 else 11)"

definition DateFromTime :: "time \<Rightarrow> int" where
  "DateFromTime t =
     DayWithinYear t - DaysBeforeMonth (MonthFromTime t) (InLeapYear (YearFromTime t)) + 1"

definition MakeDay :: "int \<Rightarrow> int \<Rightarrow> int \<Rightarrow> int" where
  "MakeDay year month date =
     (let ym = year + month div 12; mn = month mod 12 in
      DayFromYear ym + DaysBeforeMonth mn (InLeapYear ym) + date - 1)"

definition MakeTime :: "int \<Rightarrow> int \<Rightarrow> int \<Rightarrow> int \<Rightarrow> int" where
  "MakeTime h m s ms = h * 3600000 + m * 60000 + s * 1000 + ms"

definition MakeDate :: "int \<Rightarrow> int \<Rightarrow> time" where
  "MakeDate day tm = day * msPerDay + tm"

text \<open>The methods of \<^verbatim>\<open>Date\<close> the controller calls. A setter returns the new time
  value of the object it mutates.\<close>

definition getMonth :: "time \<Rightarrow> int" where
  "getMonth t = MonthFromTime t"

definition getDate :: "time \<Rightarrow> int" where
  "getDate t = DateFromTime t"

definition setMonth :: "time \<Rightarrow> int \<Rightarrow> time" where
  "setMonth t m = MakeDate (MakeDay (YearFromTime t) m (DateFromTime t)) (TimeWithinDay t)"

definition setDate :: "time \<Rightarrow> int \<Rightarrow> time" where
  "setDate t d = MakeDate (MakeDay (YearFromTime t) (MonthFromTime t) d) (TimeWithinDay t)"

definition setHours :: "time \<Rightarrow> int \<Rightarrow> int \<Rightarrow> int \<Rightarrow> int \<Rightarrow> time" where
  "setHours t h m s ms = MakeDate (Day t) (MakeTime h m s ms)"

text \<open>The local midnight that starts the calendar day year-month-day, the month
  written 1 to 12 as in a date string.\<close>

definition civil :: "int \<Rightarrow> int \<Rightarrow> int \<Rightarrow> time" where
  "civil y m d = MakeDate (MakeDay y (m - 1) d) 0"

text \<open>Lines 348 to 351 of the controller (the same as 432 to 435):
  \<^verbatim>\<open>end = new Date(start); end.setMonth(end.getMonth() + Number(duration));
  end.setDate(end.getDate() - 1)\<close>.\<close>

definition computeEnd :: "time \<Rightarrow> int \<Rightarrow> time" where
  "computeEnd start duration =
     (let end0 = start;
          end1 = setMonth end0 (getMonth end0 + duration);
          end2 = setDate end1 (getDate end1 - 1)
      in end2)"

subsection \<open>The end date as the specification words it\<close>

definition DaysInMonth :: "int \<Rightarrow> int \<Rightarrow> int" where
  "DaysInMonth y m =
     (if m = 1 then (if InLeapYear y then 29 else 28)
      else if m = 3 \<or> m = 5 \<or> m = 8 \<or> m = 10 then 30 else 31)"

text \<open>Calendar addition of months: the same day of the month \<open>n\<close> months later, or the
  last day of that month when it is shorter.\<close>

definition spec_addMonths :: "time \<Rightarrow> int \<Rightarrow> time" where
  "spec_addMonths t n =
     (let mo = MonthFromTime t + n;
          ym = YearFromTime t + mo div 12; mn = mo mod 12 in
      MakeDate (MakeDay ym mn (min (DateFromTime t) (DaysInMonth ym mn))) (TimeWithinDay t))"

definition spec_endDate :: "time \<Rightarrow> int \<Rightarrow> time" where
  "spec_endDate start duration = spec_addMonths start duration - msPerDay"

section \<open>Documents and collections\<close>

text \<open>
  Document ids are natural numbers; a new document takes an id that no document of its
  collection has. Amounts are exact rational numbers. Only the Invoice schema is part of
  the sources; of the other three models the fields the controller reads or writes are
  kept. A populated reference is represented by the id it refers to.
\<close>

type_synonym oid = nat
type_synonym money = rat

record assignment =
  a_id :: oid
  a_customerId :: oid
  a_trainerId :: oid
  a_gymId :: oid
  a_startDate :: time
  a_duration :: int
  a_endDate :: time
  a_fees :: money

record customer =
  totalSpent :: money
  personalTrainer :: "assignment option"

record invoice_item =
  description :: string
  quantity :: int
  unitPrice :: money
  item_amount :: money

record invoice =
  i_id :: oid
  i_userId :: oid
  i_gymId :: oid
  i_customerId :: oid
  invoiceNumber :: string
  i_amount :: money
  currency :: string
  dueDate :: time
  items :: "invoice_item list"
  i_notes :: string
  i_createdAt :: time
  i_updatedAt :: time

record transaction =
  t_id :: oid
  t_userId :: oid
  t_gymId :: oid
  invoiceId :: oid
  transactionType :: string
  transactionDate :: time
  t_amount :: money
  paymentMode :: string
  membershipType :: "string option"
  t_description :: string
  status :: string
  t_createdAt :: time

record db =
  customers :: "oid \<rightharpoonup> customer"
  assignments :: "assignment list"
  invoices :: "invoice list"
  transactions :: "transaction list"

definition newId :: "oid list \<Rightarrow> oid" where
  "newId ids = Suc (fold max ids 0)"

text \<open>\<^verbatim>\<open>updateOne\<close> and \<^verbatim>\<open>deleteOne\<close> by a filter: the first document that matches.\<close>

fun replaceFirst :: "('a \<Rightarrow> bool) \<Rightarrow> ('a \<Rightarrow> 'a) \<Rightarrow> 'a list \<Rightarrow> 'a list" where
  "replaceFirst P f [] = []"
| "replaceFirst P f (x # xs) = (if P x then f x # xs else x # replaceFirst P f xs)"

fun deleteFirst :: "('a \<Rightarrow> bool) \<Rightarrow> 'a list \<Rightarrow> 'a list" where
  "deleteFirst P [] = []"
| "deleteFirst P (x # xs) = (if P x then xs else x # deleteFirst P xs)"

section \<open>Strings\<close>

text \<open>Decimal digits by their character codes, 48 to 57.\<close>

definition digit_char :: "nat \<Rightarrow> char" where
  "digit_char d = char_of (48 + d)"

definition is_digit :: "char \<Rightarrow> bool" where
  "is_digit c = (48 \<le> (of_char c :: nat) \<and> (of_char c :: nat) \<le> 57)"

definition digit_val :: "char \<Rightarrow> nat" where
  "digit_val c = of_char c - 48"

text \<open>\<^verbatim>\<open>String(n)\<close> for a natural number: its decimal digits.\<close>

fun String_nat :: "nat \<Rightarrow> string" where
  "String_nat n =
     (if n < 10 then [digit_char n] else String_nat (n div 10) @ [digit_char (n mod 10)])"

declare String_nat.simps [simp del]

definition String_int :: "int \<Rightarrow> string" where
  "String_int i = (if i < 0 then CHR ''-'' # String_nat (nat (- i)) else String_nat (nat i))"

text \<open>\<^verbatim>\<open>parseInt(s, 10)\<close> on a string of digits.\<close>

definition parseInt :: "string \<Rightarrow> nat" where
  "parseInt s = foldl (\<lambda>n c. 10 * n + digit_val c) 0 s"

definition padStart :: "nat \<Rightarrow> char \<Rightarrow> string \<Rightarrow> string" where
  "padStart n c s = replicate (n - length s) c @ s"

text \<open>\<^verbatim>\<open>s.match(/INV(\d+)/)\<close>: the first place where \<^verbatim>\<open>INV\<close> is followed by a digit;
  the result is the captured group, the longest run of digits there.\<close>

fun match_INV :: "string \<Rightarrow> string option" where
  "match_INV [] = None"
| "match_INV (c # cs) =
     (let ds = takeWhile is_digit (drop 3 (c # cs)) in
      if take 3 (c # cs) = ''INV'' \<and> ds \<noteq> [] then Some ds else match_INV cs)"

text \<open>\<^verbatim>\<open>/Personal Training/\<close> tested on a string: the pattern occurs in it.\<close>

fun occurs_in :: "string \<Rightarrow> string \<Rightarrow> bool" where
  "occurs_in p [] = (p = [])"
| "occurs_in p (c # cs) = (take (length p) (c # cs) = p \<or> occurs_in p cs)"

definition matches_PT :: "string \<Rightarrow> bool" where
  "matches_PT s = occurs_in ''Personal Training'' s"

section \<open>The Invoice model\<close>

text \<open>The document with the greatest \<^verbatim>\<open>createdAt\<close>, as
  \<^verbatim>\<open>findOne(...).sort({ createdAt: -1 })\<close> returns it; among equal times the one
  stored first.\<close>

fun newest :: "('a \<Rightarrow> time) \<Rightarrow> 'a list \<Rightarrow> 'a option" where
  "newest f [] = None"
| "newest f (x # xs) =
     (case newest f xs of
        None \<Rightarrow> Some x
      | Some y \<Rightarrow> if f x < f y then Some y else Some x)"

text \<open>The body of the two hooks that generate the invoice number (lines 85 to 104 and
  107 to 124 of the model; they are the same).\<close>

definition nextNumber :: "invoice list \<Rightarrow> nat" where
  "nextNumber invs =
     (case newest i_createdAt invs of
        None \<Rightarrow> 1
      | Some lastInvoice \<Rightarrow>
          if invoiceNumber lastInvoice = [] then 1
          else (case match_INV (invoiceNumber lastInvoice) of
                  None \<Rightarrow> 1
                | Some ds \<Rightarrow> parseInt ds + 1))"

definition numberHook :: "invoice list \<Rightarrow> invoice \<Rightarrow> invoice" where
  "numberHook invs iv =
     (if invoiceNumber iv = []
      then iv\<lparr>invoiceNumber := ''INV'' @ padStart 5 CHR ''0'' (String_nat (nextNumber invs))\<rparr>
      else iv)"

text \<open>The validators of the schema: required strings are not empty, the minima hold.\<close>

definition itemValid :: "invoice_item \<Rightarrow> bool" where
  "itemValid it =
     (description it \<noteq> [] \<and> 1 \<le> quantity it \<and> 0 \<le> unitPrice it \<and> 0 \<le> item_amount it)"

definition invoiceValid :: "invoice \<Rightarrow> bool" where
  "invoiceValid iv =
     (invoiceNumber iv \<noteq> [] \<and> 0 \<le> i_amount iv \<and> currency iv \<noteq> [] \<and>
      list_all itemValid (items iv))"

datatype driver_error = ValidationError | DuplicateKey | TypeError

text \<open>\<^verbatim>\<open>save()\<close> of a new invoice at time \<open>now\<close>: the pre-validate hook, validation, the
  two pre-save hooks, then the insert, which the unique index on the invoice number
  can reject.\<close>

definition invoice_insert :: "time \<Rightarrow> invoice \<Rightarrow> invoice list \<Rightarrow> driver_error + invoice \<times> invoice list" where
  "invoice_insert now iv invs =
     (let i1 = numberHook invs iv in
      if \<not> invoiceValid i1 then Inl ValidationError
      else
        let i2 = i1\<lparr>i_updatedAt := now\<rparr>;
            i3 = numberHook invs i2
        in if invoiceNumber i3 \<in> set (map invoiceNumber invs) then Inl DuplicateKey
           else Inr (i3, invs @ [i3]))"

text \<open>\<^verbatim>\<open>save()\<close> of an invoice read from the collection: the same hooks and validation,
  then the stored document with that id is replaced; the unique index rejects a number
  that another document has.\<close>

definition invoice_update :: "time \<Rightarrow> invoice \<Rightarrow> invoice list \<Rightarrow> driver_error + invoice \<times> invoice list" where
  "invoice_update now iv invs =
     (let i1 = numberHook invs iv in
      if \<not> invoiceValid i1 then Inl ValidationError
      else
        let i2 = i1\<lparr>i_updatedAt := now\<rparr>;
            i3 = numberHook invs i2
        in if invoiceNumber i3 \<in> set (map invoiceNumber (filter (\<lambda>j. i_id j \<noteq> i_id i3) invs))
           then Inl DuplicateKey
           else Inr (i3, replaceFirst (\<lambda>j. i_id j = i_id i3) (\<lambda>j. i3) invs))"

section \<open>The personal training assignment controller\<close>

text \<open>
  What a handler reads besides the collections: the authenticated user and the gym of
  that user, the clock (one reading for the whole request), the locale's date format,
  and the validators of the Assignment and Transaction schemas, which are not part of
  the sources and are therefore parameters.
\<close>

record ctx =
  user_id :: oid
  user_gymId :: "oid option"
  now :: time
  toLocaleDateString :: "time \<Rightarrow> string"
  assignmentValid :: "assignment \<Rightarrow> bool"
  transactionValid :: "transaction \<Rightarrow> bool"

text \<open>The JSON body of a request; a field that is absent is \<open>None\<close>.\<close>

record body =
  b_customerId :: "oid option"
  b_trainerId :: "oid option"
  b_gymId :: "oid option"
  b_startDate :: "time option"
  b_duration :: "int option"
  b_endDate :: "time option"
  b_fees :: "money option"
  b_paymentMode :: "string option"
  b_transactionDate :: "time option"

datatype payload =
  Assignments "assignment list"
| AssignmentDoc assignment
| Docs assignment invoice transaction
| Message string

datatype failure = Msg string | Driver driver_error

datatype reply = Json nat payload | Fail nat failure

text \<open>A number is falsy when it is absent or zero.\<close>

definition truthy :: "'a::zero option \<Rightarrow> 'a option" where
  "truthy x = (case x of None \<Rightarrow> None | Some v \<Rightarrow> if v = 0 then None else Some v)"

definition findById :: "oid \<Rightarrow> assignment list \<Rightarrow> assignment option" where
  "findById i as = find (\<lambda>a. a_id a = i) as"

text \<open>\<^verbatim>\<open>Customer.findByIdAndUpdate\<close>: nothing happens when there is no such customer.\<close>

definition updateCustomer :: "oid \<Rightarrow> (customer \<Rightarrow> customer) \<Rightarrow> db \<Rightarrow> db" where
  "updateCustomer cid f d =
     (case customers d cid of
        None \<Rightarrow> d
      | Some c \<Rightarrow> d\<lparr>customers := (customers d)(cid \<mapsto> f c)\<rparr>)"

text \<open>The filters of the invoice and transaction queries.\<close>

definition ptInvoice :: "oid \<Rightarrow> oid \<Rightarrow> invoice \<Rightarrow> bool" where
  "ptInvoice customerId gymId iv =
     (i_customerId iv = customerId \<and> i_gymId iv = gymId \<and>
      list_ex (\<lambda>it. matches_PT (description it)) (items iv))"

definition ptTransaction :: "oid \<Rightarrow> oid \<Rightarrow> string list \<Rightarrow> transaction \<Rightarrow> bool" where
  "ptTransaction customerId gymId types t =
     (t_userId t = customerId \<and> t_gymId t = gymId \<and> transactionType t \<in> set types)"

subsection \<open>getAssignments\<close>

definition getAssignments :: "ctx \<Rightarrow> oid option \<Rightarrow> db \<Rightarrow> reply" where
  "getAssignments ctx gymId d =
     Json 200 (Assignments
       (case gymId of
          Some g \<Rightarrow> filter (\<lambda>a. a_gymId a = g) (assignments d)
        | None \<Rightarrow> assignments d))"

subsection \<open>createAssignment\<close>

text \<open>The steps of the handler in their order; a step that throws ends the request with
  status 500 and leaves the writes made so far. \<^verbatim>\<open>populatedAssignment\<close> is the assignment
  just saved, read back with the details of its trainer.\<close>

definition create_fields :: "body \<Rightarrow> (oid \<times> oid \<times> oid \<times> time \<times> int \<times> money) option" where
  "create_fields b =
     (case b_customerId b of None \<Rightarrow> None | Some customerId \<Rightarrow>
      case b_trainerId b of None \<Rightarrow> None | Some trainerId \<Rightarrow>
      case b_gymId b of None \<Rightarrow> None | Some gymId \<Rightarrow>
      case b_startDate b of None \<Rightarrow> None | Some startDate \<Rightarrow>
      case truthy (b_duration b) of None \<Rightarrow> None | Some duration \<Rightarrow>
      case truthy (b_fees b) of None \<Rightarrow> None | Some fees \<Rightarrow>
      Some (customerId, trainerId, gymId, startDate, duration, fees))"

definition ptItem :: "int \<Rightarrow> money \<Rightarrow> invoice_item" where
  "ptItem duration fees =
     \<lparr>description = ''Personal Training with '' @ String_int duration @ '' month(s) duration'',
      quantity = 1, unitPrice = fees, item_amount = fees\<rparr>"

definition createInvoice :: "ctx \<Rightarrow> oid \<Rightarrow> oid \<Rightarrow> oid \<Rightarrow> time \<Rightarrow> int \<Rightarrow> money \<Rightarrow> invoice" where
  "createInvoice ctx i customerId gymId start duration fees =
     \<lparr>i_id = i, i_userId = user_id ctx, i_gymId = gymId, i_customerId = customerId,
      invoiceNumber = [], i_amount = fees, currency = ''INR'',
      dueDate = now ctx + 7 * 24 * 60 * 60 * 1000,
      items = [ptItem duration fees],
      i_notes = ''Personal training assignment starting '' @ toLocaleDateString ctx start,
      i_createdAt = now ctx, i_updatedAt = now ctx\<rparr>"

definition createTransaction :: "ctx \<Rightarrow> oid \<Rightarrow> oid \<Rightarrow> oid \<Rightarrow> oid \<Rightarrow> int \<Rightarrow> money \<Rightarrow> transaction" where
  "createTransaction ctx i customerId gymId inv_id duration fees =
     \<lparr>t_id = i, t_userId = customerId, t_gymId = gymId, invoiceId = inv_id,
      transactionType = ''PERSONAL_TRAINING'', transactionDate = now ctx, t_amount = fees,
      paymentMode = ''cash'', membershipType = None,
      t_description = ''Personal training fees for '' @ String_int duration @ '' month(s)'',
      status = ''SUCCESS'', t_createdAt = now ctx\<rparr>"

definition createAssignment :: "ctx \<Rightarrow> body \<Rightarrow> db \<Rightarrow> reply \<times> db" where
  "createAssignment ctx b d =
     (case create_fields b of
        None \<Rightarrow> (Fail 400 (Msg ''All fields are required.''), d)
      | Some (customerId, trainerId, gymId, startDate, duration, fees) \<Rightarrow>
          let start = startDate;
              end_date = computeEnd start duration;
              assignment =
                \<lparr>a_id = newId (map a_id (assignments d)), a_customerId = customerId,
                 a_trainerId = trainerId, a_gymId = gymId, a_startDate = start,
                 a_duration = duration, a_endDate = end_date, a_fees = fees\<rparr>
          in if \<not> assignmentValid ctx assignment
             then (Fail 500 (Driver ValidationError), d)
             else
               let d1 = d\<lparr>assignments := assignments d @ [assignment]\<rparr>;
                   d2 = updateCustomer customerId
                          (\<lambda>c. c\<lparr>personalTrainer := Some assignment\<rparr>) d1;
                   invoice = createInvoice ctx (newId (map i_id (invoices d2)))
                               customerId gymId start duration fees
               in case invoice_insert (now ctx) invoice (invoices d2) of
                    Inl e \<Rightarrow> (Fail 500 (Driver e), d2)
                  | Inr (saved, invs) \<Rightarrow>
                      let d3 = d2\<lparr>invoices := invs\<rparr>;
                          txn = createTransaction ctx (newId (map t_id (transactions d3)))
                                  customerId gymId (i_id saved) duration fees
                      in if \<not> transactionValid ctx txn
                         then (Fail 500 (Driver ValidationError), d3)
                         else
                           let d4 = d3\<lparr>transactions := transactions d3 @ [txn]\<rparr>;
                               d5 = updateCustomer customerId
                                      (\<lambda>c. c\<lparr>totalSpent := totalSpent c + fees\<rparr>) d4
                           in (Json 201 (Docs assignment saved txn), d5))"

subsection \<open>updateAssignment\<close>

text \<open>\<^verbatim>\<open>findByIdAndUpdate\<close> writes nothing and returns \<^verbatim>\<open>null\<close> when no assignment has the
  id. The invoice and the transaction are looked up with the customer and gym of the
  request.\<close>

definition updateAssignment :: "ctx \<Rightarrow> oid \<Rightarrow> body \<Rightarrow> db \<Rightarrow> reply \<times> db" where
  "updateAssignment ctx i b d =
     (case create_fields b of
        None \<Rightarrow> (Fail 400 (Msg ''All fields are required.''), d)
      | Some (customerId, trainerId, gymId, startDate, duration, fees) \<Rightarrow>
          let start = startDate;
              end_date = computeEnd start duration
          in case findById i (assignments d) of
               None \<Rightarrow> (Fail 404 (Msg ''Assignment not found.''), d)
             | Some old \<Rightarrow>
                 let assignment =
                       old\<lparr>a_customerId := customerId, a_trainerId := trainerId,
                           a_gymId := gymId, a_startDate := start, a_duration := duration,
                           a_endDate := end_date, a_fees := fees\<rparr>;
                     d1 = d\<lparr>assignments :=
                            replaceFirst (\<lambda>a. a_id a = i) (\<lambda>a. assignment) (assignments d)\<rparr>;
                     d2 = updateCustomer customerId
                            (\<lambda>c. c\<lparr>personalTrainer := Some assignment\<rparr>) d1;
                     r3 = (case newest i_createdAt (filter (ptInvoice customerId gymId) (invoices d2)) of
                             None \<Rightarrow> Inr d2
                           | Some invoice \<Rightarrow>
                               (case invoice_update (now ctx)
                                       (invoice\<lparr>i_amount := fees, dueDate := end_date,
                                           items := [ptItem duration fees],
                                           i_notes := ''Personal training assignment starting '' @
                                                      toLocaleDateString ctx start\<rparr>)
                                       (invoices d2) of
                                  Inl e \<Rightarrow> Inl e
                                | Inr (saved, invs) \<Rightarrow> Inr (d2\<lparr>invoices := invs\<rparr>)))
                 in case r3 of
                      Inl e \<Rightarrow> (Fail 500 (Driver e), d2)
                    | Inr d3 \<Rightarrow>
                        (case newest t_createdAt
                                (filter (ptTransaction customerId gymId [''PERSONAL_TRAINING''])
                                   (transactions d3)) of
                           None \<Rightarrow> (Json 200 (AssignmentDoc assignment), d3)
                         | Some transaction \<Rightarrow>
                             let txn = transaction\<lparr>t_amount := fees,
                                         t_description := ''Personal training fees for '' @
                                                          String_int duration @ '' month(s)'',
                                         transactionDate := now ctx\<rparr>
                             in if \<not> transactionValid ctx txn
                                then (Fail 500 (Driver ValidationError), d3)
                                else (Json 200 (AssignmentDoc assignment),
                                      d3\<lparr>transactions :=
                                           replaceFirst (\<lambda>t. t_id t = t_id txn) (\<lambda>t. txn)
                                             (transactions d3)\<rparr>)))"

subsection \<open>deleteAssignment\<close>

definition deleteAssignment :: "oid \<Rightarrow> db \<Rightarrow> reply \<times> db" where
  "deleteAssignment i d =
     (case findById i (assignments d) of
        None \<Rightarrow> (Fail 404 (Msg ''Assignment not found.''), d)
      | Some assignment \<Rightarrow>
          let d1 = updateCustomer (a_customerId assignment)
                     (\<lambda>c. c\<lparr>personalTrainer := None\<rparr>) d;
              d2 = d1\<lparr>invoices :=
                     filter (\<lambda>iv. \<not> ptInvoice (a_customerId assignment) (a_gymId assignment) iv)
                       (invoices d1)\<rparr>;
              d3 = d2\<lparr>transactions :=
                     filter (\<lambda>t. \<not> ptTransaction (a_customerId assignment) (a_gymId assignment)
                                    [''PERSONAL_TRAINING'', ''PERSONAL_TRAINING_RENEWAL''] t)
                       (transactions d2)\<rparr>;
              d4 = d3\<lparr>assignments := deleteFirst (\<lambda>a. a_id a = i) (assignments d3)\<rparr>
          in (Json 200 (Message ''Assignment deleted successfully.''), d4))"

subsection \<open>renewAssignment\<close>

definition renew_fields :: "body \<Rightarrow> (time \<times> int \<times> time \<times> money \<times> oid) option" where
  "renew_fields b =
     (case b_startDate b of None \<Rightarrow> None | Some startDate \<Rightarrow>
      case truthy (b_duration b) of None \<Rightarrow> None | Some duration \<Rightarrow>
      case b_endDate b of None \<Rightarrow> None | Some endDate \<Rightarrow>
      case truthy (b_fees b) of None \<Rightarrow> None | Some fees \<Rightarrow>
      case b_gymId b of None \<Rightarrow> None | Some gymId \<Rightarrow>
      Some (startDate, duration, endDate, fees, gymId))"

definition renewalInvoice :: "ctx \<Rightarrow> oid \<Rightarrow> oid \<Rightarrow> oid \<Rightarrow> time \<Rightarrow> int \<Rightarrow> time \<Rightarrow> money \<Rightarrow> invoice" where
  "renewalInvoice ctx i customerId gymId startDate duration endDate fees =
     \<lparr>i_id = i, i_userId = user_id ctx, i_gymId = gymId, i_customerId = customerId,
      invoiceNumber = [], i_amount = fees, currency = ''INR'', dueDate = endDate,
      items = [\<lparr>description = ''Personal Training Renewal ('' @ String_int duration @
                               '' month(s))'',
                quantity = duration, unitPrice = fees / of_int duration,
                item_amount = fees\<rparr>],
      i_notes = ''Personal training renewal starting '' @ toLocaleDateString ctx startDate,
      i_createdAt = now ctx, i_updatedAt = now ctx\<rparr>"

definition renewalTransaction :: "ctx \<Rightarrow> body \<Rightarrow> oid \<Rightarrow> oid \<Rightarrow> oid \<Rightarrow> oid \<Rightarrow> int \<Rightarrow> money \<Rightarrow> transaction" where
  "renewalTransaction ctx b i customerId gymId inv_id duration fees =
     \<lparr>t_id = i, t_userId = customerId, t_gymId = gymId, invoiceId = inv_id,
      transactionType = ''PERSONAL_TRAINING_RENEWAL'',
      transactionDate = (case b_transactionDate b of Some t \<Rightarrow> t | None \<Rightarrow> now ctx),
      t_amount = fees,
      paymentMode = (case b_paymentMode b of
                       Some m \<Rightarrow> if m = [] then ''cash'' else m
                     | None \<Rightarrow> ''cash''),
      membershipType = Some ''none'',
      t_description = ''Personal training renewal for '' @ String_int duration @ '' month(s)'',
      status = ''SUCCESS'', t_createdAt = now ctx\<rparr>"

text \<open>The populated \<^verbatim>\<open>customerId\<close> of the updated assignment is \<^verbatim>\<open>null\<close> when the
  customer does not exist; reading its \<^verbatim>\<open>_id\<close> then throws.\<close>

definition renewAssignment :: "ctx \<Rightarrow> oid \<Rightarrow> body \<Rightarrow> db \<Rightarrow> reply \<times> db" where
  "renewAssignment ctx i b d =
     (case renew_fields b of
        None \<Rightarrow> (Fail 400 (Msg ''All fields are required.''), d)
      | Some (startDate, duration, endDate, fees, gymId) \<Rightarrow>
          (case findById i (assignments d) of
             None \<Rightarrow> (Fail 404 (Msg ''Assignment not found.''), d)
           | Some old \<Rightarrow>
               let assignment = old\<lparr>a_startDate := startDate, a_duration := duration,
                                    a_endDate := endDate, a_fees := fees\<rparr>;
                   d1 = d\<lparr>assignments :=
                          replaceFirst (\<lambda>a. a_id a = i) (\<lambda>a. assignment) (assignments d)\<rparr>
               in case customers d1 (a_customerId assignment) of
                    None \<Rightarrow> (Fail 500 (Driver TypeError), d1)
                  | Some populated \<Rightarrow>
                      let customerId = a_customerId assignment;
                          d2 = updateCustomer customerId
                                 (\<lambda>c. c\<lparr>personalTrainer := Some assignment\<rparr>) d1;
                          invoice = renewalInvoice ctx (newId (map i_id (invoices d2)))
                                      customerId gymId startDate duration endDate fees
                      in case invoice_insert (now ctx) invoice (invoices d2) of
                           Inl e \<Rightarrow> (Fail 500 (Driver e), d2)
                         | Inr (saved, invs) \<Rightarrow>
                             let d3 = d2\<lparr>invoices := invs\<rparr>;
                                 txn = renewalTransaction ctx b
                                         (newId (map t_id (transactions d3)))
                                         customerId gymId (i_id saved) duration fees
                             in if \<not> transactionValid ctx txn
                                then (Fail 500 (Driver ValidationError), d3)
                                else
                                  let d4 = d3\<lparr>transactions := transactions d3 @ [txn]\<rparr>;
                                      d5 = updateCustomer customerId
                                             (\<lambda>c. c\<lparr>totalSpent := totalSpent c + fees\<rparr>) d4
                                  in (Json 200 (Docs assignment saved txn), d5)))"

subsection \<open>getExpiringAssignments\<close>

text \<open>\<^verbatim>\<open>today\<close> is the current time with the time of day set to 00:00:00.000;
  \<^verbatim>\<open>sevenDaysFromNow\<close> is a copy of it moved by \<^verbatim>\<open>setDate(today.getDate() + 7)\<close> and set to
  23:59:59.999.\<close>

definition getExpiringAssignments :: "ctx \<Rightarrow> oid option \<Rightarrow> db \<Rightarrow> reply" where
  "getExpiringAssignments ctx gymId d =
     (let today = setHours (now ctx) 0 0 0 0;
          sevenDaysFromNow = setHours (setDate today (getDate today + 7)) 23 59 59 999
      in Json 200 (Assignments
           (filter (\<lambda>a. today \<le> a_endDate a \<and> a_endDate a \<le> sevenDaysFromNow \<and>
                        (case gymId of Some g \<Rightarrow> a_gymId a = g | None \<Rightarrow> True))
              (assignments d))))"

section \<open>Sequences of operations\<close>

text \<open>The invoice number of the specification: \<^verbatim>\<open>INV\<close> and the counter, padded with
  zeros to five digits.\<close>

definition invoiceNo :: "nat \<Rightarrow> string" where
  "invoiceNo n = ''INV'' @ padStart 5 CHR ''0'' (String_nat n)"





fun succeeded :: "reply \<Rightarrow> bool" where
  "succeeded (Json st p) = True"
| "succeeded (Fail st e) = False"






section \<open>Example data\<close>

text \<open>Concrete requests and states, on which the operations are evaluated.\<close>

definition ctx_at :: "time \<Rightarrow> ctx" where
  "ctx_at t =
     \<lparr>user_id = 9, user_gymId = Some 5, now = t, toLocaleDateString = (\<lambda>t. ''a date''),
      assignmentValid = (\<lambda>a. True), transactionValid = (\<lambda>t. True)\<rparr>"

definition asg :: "oid \<Rightarrow> oid \<Rightarrow> oid \<Rightarrow> assignment" where
  "asg i c g =
     \<lparr>a_id = i, a_customerId = c, a_trainerId = 3, a_gymId = g,
      a_startDate = civil 2024 1 15, a_duration = 3, a_endDate = civil 2024 4 14,
      a_fees = 100\<rparr>"

definition inv_of :: "oid \<Rightarrow> oid \<Rightarrow> oid \<Rightarrow> string \<Rightarrow> time \<Rightarrow> invoice" where
  "inv_of i c g n t =
     \<lparr>i_id = i, i_userId = 9, i_gymId = g, i_customerId = c, invoiceNumber = n,
      i_amount = 100, currency = ''INR'', dueDate = t + 604800000, items = [ptItem 3 100],
      i_notes = ''Personal training assignment starting a date'',
      i_createdAt = t, i_updatedAt = t\<rparr>"

definition txn_of :: "oid \<Rightarrow> oid \<Rightarrow> oid \<Rightarrow> string \<Rightarrow> time \<Rightarrow> transaction" where
  "txn_of i c g ty t =
     \<lparr>t_id = i, t_userId = c, t_gymId = g, invoiceId = i, transactionType = ty,
      transactionDate = t, t_amount = 100, paymentMode = ''cash'', membershipType = None,
      t_description = ''Personal training fees for 3 month(s)'', status = ''SUCCESS'',
      t_createdAt = t\<rparr>"

text \<open>Customer 7 of gym 5 has had two assignments, and the snapshot on the customer
  record is the second one; customer 8 is a customer of gym 6.\<close>

definition db_two :: db where
  "db_two =
     \<lparr>customers = [7 \<mapsto> \<lparr>totalSpent = 200, personalTrainer = Some (asg 2 7 5)\<rparr>,
                   8 \<mapsto> \<lparr>totalSpent = 100, personalTrainer = Some (asg 3 8 6)\<rparr>],
      assignments = [asg 1 7 5, asg 2 7 5, asg 3 8 6],
      invoices = [inv_of 1 7 5 ''INV00001'' 10, inv_of 2 7 5 ''INV00002'' 20,
                  inv_of 3 8 6 ''INV00003'' 30],
      transactions = [txn_of 1 7 5 ''PERSONAL_TRAINING'' 10,
                      txn_of 2 7 5 ''PERSONAL_TRAINING_RENEWAL'' 20,
                      txn_of 3 8 6 ''PERSONAL_TRAINING'' 30]\<rparr>"

text \<open>Assignments that end on 2024-03-10, on 2024-03-17 in its last millisecond, on
  2024-03-18 and on 2024-03-09 in its last millisecond.\<close>

definition asg_end :: "oid \<Rightarrow> oid \<Rightarrow> time \<Rightarrow> assignment" where
  "asg_end i g e = (asg i 7 g)\<lparr>a_endDate := e\<rparr>"

definition db_exp :: db where
  "db_exp =
     \<lparr>customers = Map.empty,
      assignments = [asg_end 1 5 (civil 2024 3 10 + 18000000),
                     asg_end 2 6 (civil 2024 3 17 + 86399999),
                     asg_end 3 5 (civil 2024 3 18),
                     asg_end 4 5 (civil 2024 3 10 - 1)],
      invoices = [], transactions = []\<rparr>"

definition body_create :: body where
  "body_create =
     \<lparr>b_customerId = Some 7, b_trainerId = Some 3, b_gymId = Some 5,
      b_startDate = Some (civil 2024 1 15), b_duration = Some 3, b_endDate = None,
      b_fees = Some 100, b_paymentMode = None, b_transactionDate = None\<rparr>"

definition body_renew :: body where
  "body_renew =
     \<lparr>b_customerId = None, b_trainerId = None, b_gymId = Some 5,
      b_startDate = Some (civil 2024 4 15), b_duration = Some 2,
      b_endDate = Some (civil 2025 1 1), b_fees = Some 150, b_paymentMode = None,
      b_transactionDate = None\<rparr>"

definition db_start :: db where
  "db_start =
     \<lparr>customers = [7 \<mapsto> \<lparr>totalSpent = 50, personalTrainer = None\<rparr>],
      assignments = [], invoices = [], transactions = []\<rparr>"

definition db_one :: db where
  "db_one =
     \<lparr>customers = [7 \<mapsto> \<lparr>totalSpent = 150, personalTrainer = Some (asg 1 7 5)\<rparr>],
      assignments = [asg 1 7 5],
      invoices = [inv_of 1 7 5 ''INV00001'' 1000],
      transactions = [txn_of 1 7 5 ''PERSONAL_TRAINING'' 1000]\<rparr>"

definition body_jan31 :: body where
  "body_jan31 = body_create\<lparr>b_startDate := Some (civil 2024 1 31), b_duration := Some 1\<rparr>"

definition body_update :: body where
  "body_update =
     \<lparr>b_customerId = Some 7, b_trainerId = Some 3, b_gymId = Some 5,
      b_startDate = Some (civil 2024 2 1), b_duration = Some 2, b_endDate = None,
      b_fees = Some 120, b_paymentMode = None, b_transactionDate = None\<rparr>"




section \<open>Facts about dates\<close>

text \<open>\<open>YearFromDay\<close> is the greatest year that starts on or before the day.\<close>

lemma year_search_le_start: "year_search y d \<le> y"
proof (induction y d rule: year_search.induct)
  case (1 y d)
  then show ?case by (subst year_search.simps) auto
qed

lemma year_search_sound: "DayFromYear (year_search y d) \<le> d"
proof (induction y d rule: year_search.induct)
  case (1 y d)
  then show ?case by (subst year_search.simps) auto
qed

lemma year_search_greatest:
  "y' \<le> y \<Longrightarrow> DayFromYear y' \<le> d \<Longrightarrow> y' \<le> year_search y d"
proof (induction y d rule: year_search.induct)
  case (1 y d)
  show ?case
  proof (cases "DayFromYear y \<le> d")
    case True
    with "1.prems" show ?thesis by (subst year_search.simps) simp
  next
    case False
    with "1.prems" have "y' \<noteq> y" by auto
    with "1.prems" have "y' \<le> y - 1" by simp
    with False "1.IH" "1.prems" show ?thesis by (subst year_search.simps) simp
  qed
qed

lemma div_aux: "0 \<le> (a::int) \<Longrightarrow> (a + 68) div 100 \<le> a div 4"
proof -
  assume a: "0 \<le> a"
  define q1 r1 q2 r2 where "q1 = (a + 68) div 100" and "r1 = (a + 68) mod 100"
    and "q2 = a div 4" and "r2 = a mod 4"
  have "a + 68 = 100 * q1 + r1" "0 \<le> r1" "a = 4 * q2 + r2" "r2 < 4" "0 \<le> q2"
    using a by (simp_all add: q1_def r1_def q2_def r2_def)
  then have "q1 \<le> q2" by linarith
  then show ?thesis by (simp add: q1_def q2_def)
qed

lemma div_aux2: "0 \<le> (a::int) \<Longrightarrow> 0 \<le> (a + 368) div 400"
  by simp

lemma DayFromYear_lower: "1970 \<le> y \<Longrightarrow> 365 * (y - 1970) \<le> DayFromYear y"
proof -
  assume y: "1970 \<le> y"
  define a where "a = y - 1969"
  have a: "0 \<le> a" using y by (simp add: a_def)
  have "y - 1969 = a" "y - 1901 = a + 68" "y - 1601 = a + 368"
    by (simp_all add: a_def)
  then show ?thesis
    unfolding DayFromYear_def using div_aux [OF a] div_aux2 [OF a] by (simp add: add.commute)
qed

lemma YearFromDay_greatest:
  assumes "DayFromYear y \<le> d"
  shows "y \<le> YearFromDay d"
proof -
  have "y \<le> 1971 + max 0 (d div 365)"
  proof (cases "1970 \<le> y")
    case True
    from DayFromYear_lower [OF True] assms have "365 * (y - 1970) \<le> d" by simp
    then have "(365 * (y - 1970)) div 365 \<le> d div 365" by (rule zdiv_mono1) simp
    then have "y - 1970 \<le> d div 365" by simp
    then show ?thesis by simp
  next
    case False
    then show ?thesis by simp
  qed
  then show ?thesis
    unfolding YearFromDay_def using assms by (rule year_search_greatest)
qed

lemma YearFromDay_sound: "DayFromYear (YearFromDay d) \<le> d"
  unfolding YearFromDay_def by (rule year_search_sound)

lemma MonthFromTime_range: "0 \<le> MonthFromTime t \<and> MonthFromTime t \<le> 11"
  by (simp add: MonthFromTime_def Let_def)

lemma MakeDay_fields:
  "MakeDay (YearFromTime t) (MonthFromTime t) (DateFromTime t + k) = Day t + k"
proof -
  have "MonthFromTime t div 12 = 0" "MonthFromTime t mod 12 = MonthFromTime t"
    using MonthFromTime_range [of t] by simp_all
  then show ?thesis
    by (simp add: MakeDay_def DateFromTime_def DayWithinYear_def)
qed

lemma Day_MakeDate: "0 \<le> tm \<Longrightarrow> tm < msPerDay \<Longrightarrow> Day (MakeDate d tm) = d"
  by (simp add: Day_def MakeDate_def msPerDay_def)

lemma TimeWithinDay_MakeDate:
  "0 \<le> tm \<Longrightarrow> tm < msPerDay \<Longrightarrow> TimeWithinDay (MakeDate d tm) = tm"
  by (simp add: TimeWithinDay_def MakeDate_def msPerDay_def)

lemma TimeWithinDay_range: "0 \<le> TimeWithinDay t \<and> TimeWithinDay t < msPerDay"
  by (simp add: TimeWithinDay_def msPerDay_def)

lemma setDate_shift: "setDate t (getDate t + k) = t + k * msPerDay"
proof -
  have "t = Day t * msPerDay + TimeWithinDay t"
    by (simp add: Day_def TimeWithinDay_def)
  then show ?thesis
    using MakeDay_fields [of t k]
    by (simp add: setDate_def getDate_def MakeDate_def algebra_simps)
qed

lemma computeEnd_eq:
  "computeEnd start duration =
     MakeDate (MakeDay (YearFromTime start) (MonthFromTime start + duration)
                 (DateFromTime start) - 1) (TimeWithinDay start)"
proof -
  let ?e = "setMonth start (getMonth start + duration)"
  have "setDate ?e (getDate ?e - 1) = ?e - msPerDay"
    using setDate_shift [of ?e "- 1"] by simp
  then show ?thesis
    by (simp add: computeEnd_def Let_def setMonth_def getMonth_def MakeDate_def
        algebra_simps)
qed

lemma MakeDay_norm: "MakeDay (y + m div 12) (m mod 12) d = MakeDay y m d"
  by (simp add: MakeDay_def)

lemma computeEnd_spec:
  assumes "DateFromTime start \<le>
    DaysInMonth (YearFromTime start + (MonthFromTime start + n) div 12)
      ((MonthFromTime start + n) mod 12)"
  shows "computeEnd start n = spec_endDate start n"
  using assms
  by (simp add: computeEnd_eq spec_endDate_def spec_addMonths_def Let_def MakeDay_norm
      MakeDate_def min_absorb1 algebra_simps)


section \<open>Invoice numbers\<close>

lemma digit_char_digit: "d < 10 \<Longrightarrow> is_digit (digit_char d)"
  by (simp add: is_digit_def digit_char_def)

lemma digit_val_char: "d < 10 \<Longrightarrow> digit_val (digit_char d) = d"
  by (simp add: digit_val_def digit_char_def)

lemma String_nat_digits: "list_all is_digit (String_nat n)"
proof (induction n rule: String_nat.induct)
  case (1 n)
  show ?case
  proof (cases "n < 10")
    case True
    then show ?thesis
      by (subst String_nat.simps) (simp add: digit_char_digit)
  next
    case False
    then have "list_all is_digit (String_nat (n div 10))"
      using "1.IH" by simp
    with False show ?thesis
      by (subst String_nat.simps) (simp add: digit_char_digit)
  qed
qed

lemma String_nat_nonempty: "String_nat n \<noteq> []"
  by (subst String_nat.simps) simp

lemma parseInt_snoc: "parseInt (s @ [c]) = 10 * parseInt s + digit_val c"
  by (simp add: parseInt_def)

lemma parseInt_String_nat: "parseInt (String_nat n) = n"
proof (induction n rule: String_nat.induct)
  case (1 n)
  show ?case
  proof (cases "n < 10")
    case True
    then show ?thesis
      by (subst String_nat.simps) (simp add: parseInt_def digit_val_char)
  next
    case False
    then have "parseInt (String_nat (n div 10)) = n div 10"
      using "1.IH" by simp
    with False show ?thesis
      by (subst String_nat.simps) (simp add: parseInt_snoc digit_val_char)
  qed
qed

lemma parseInt_zeros: "parseInt (replicate k CHR ''0'' @ s) = parseInt s"
proof -
  have "foldl (\<lambda>n c. 10 * n + digit_val c) 0 (replicate k CHR ''0'') = 0"
    by (induction k) (simp_all add: digit_val_def)
  then show ?thesis by (simp add: parseInt_def)
qed

lemma parseInt_padStart: "parseInt (padStart k CHR ''0'' (String_nat n)) = n"
  by (simp add: padStart_def parseInt_zeros parseInt_String_nat)

lemma padStart_digits: "list_all is_digit (padStart k CHR ''0'' (String_nat n))"
proof -
  have "is_digit CHR ''0''" by (simp add: is_digit_def)
  then have "list_all is_digit (replicate (k - length (String_nat n)) CHR ''0'')"
    by (simp add: list_all_iff)
  then show ?thesis
    by (simp add: padStart_def String_nat_digits)
qed

lemma match_INV_digits:
  assumes "list_all is_digit ds" "ds \<noteq> []"
  shows "match_INV (''INV'' @ ds) = Some ds"
proof -
  from assms have tw: "takeWhile is_digit ds = ds"
    by (simp add: list_all_iff)
  show ?thesis by (simp add: Let_def tw assms)
qed

lemma match_invoiceNo:
  "match_INV (invoiceNo n) = Some (padStart 5 CHR ''0'' (String_nat n))"
  unfolding invoiceNo_def
  by (rule match_INV_digits) (rule padStart_digits, simp add: padStart_def String_nat_nonempty)


lemma invoiceNo_nonempty: "invoiceNo n \<noteq> []"
  by (simp add: invoiceNo_def)

lemma padStart_one: "padStart 5 c [d] = [c, c, c, c, d]"
  by (simp add: padStart_def eval_nat_numeral)

lemma invoiceNo_1: "invoiceNo 1 = ''INV00001''"
  by (simp add: invoiceNo_def String_nat.simps digit_char_def char_of_def bit_iff_odd padStart_one)

lemma invoiceNo_2: "invoiceNo 2 = ''INV00002''"
  by (simp add: invoiceNo_def String_nat.simps digit_char_def char_of_def bit_iff_odd padStart_one)











section \<open>Facts about the operations\<close>

lemma updateCustomer_assignments [simp]: "assignments (updateCustomer c f d) = assignments d"
  by (simp add: updateCustomer_def split: option.splits)

lemma updateCustomer_invoices [simp]: "invoices (updateCustomer c f d) = invoices d"
  by (simp add: updateCustomer_def split: option.splits)

lemma updateCustomer_transactions [simp]: "transactions (updateCustomer c f d) = transactions d"
  by (simp add: updateCustomer_def split: option.splits)

lemma updateCustomer_customers:
  "customers (updateCustomer c f d) =
     (case customers d c of None \<Rightarrow> customers d | Some x \<Rightarrow> (customers d)(c \<mapsto> f x))"
  by (simp add: updateCustomer_def split: option.splits)

lemma updateCustomer_other: "c' \<noteq> c \<Longrightarrow> customers (updateCustomer c f d) c' = customers d c'"
  by (simp add: updateCustomer_customers split: option.splits)

lemma updateCustomer_same:
  "customers (updateCustomer c f d) c = map_option f (customers d c)"
  by (simp add: updateCustomer_customers split: option.splits)

lemma numberHook_fields [simp]:
  "i_id (numberHook invs x) = i_id x"
  "i_amount (numberHook invs x) = i_amount x"
  "i_customerId (numberHook invs x) = i_customerId x"
  "i_gymId (numberHook invs x) = i_gymId x"
  "items (numberHook invs x) = items x"
  "dueDate (numberHook invs x) = dueDate x"
  "i_notes (numberHook invs x) = i_notes x"
  "i_createdAt (numberHook invs x) = i_createdAt x"
  "currency (numberHook invs x) = currency x"
  by (simp_all add: numberHook_def)

lemma invoice_insert_Inr:
  assumes "invoice_insert t x invs = Inr (y, invs')"
  shows "invs' = invs @ [y] \<and> y = (numberHook invs x)\<lparr>i_updatedAt := t\<rparr> \<and>
         invoiceValid (numberHook invs x)"
  using assms
  by (auto simp: invoice_insert_def Let_def numberHook_def invoiceValid_def split: if_splits)

lemma invoice_update_Inr:
  assumes "invoice_update t x invs = Inr (y, invs')"
  shows "invs' = replaceFirst (\<lambda>j. i_id j = i_id x) (\<lambda>j. y) invs \<and>
         y = (numberHook invs x)\<lparr>i_updatedAt := t\<rparr> \<and> invoiceValid (numberHook invs x)"
  using assms
  by (auto simp: invoice_update_def Let_def numberHook_def invoiceValid_def split: if_splits)

lemma createAssignment_success:
  assumes "createAssignment ctx b d = (Json st p, d')"
  shows "\<exists>customerId trainerId gymId startDate duration fees a saved txn.
     create_fields b = Some (customerId, trainerId, gymId, startDate, duration, fees) \<and>
     st = 201 \<and> p = Docs a saved txn \<and>
     a = \<lparr>a_id = newId (map a_id (assignments d)), a_customerId = customerId,
          a_trainerId = trainerId, a_gymId = gymId, a_startDate = startDate,
          a_duration = duration, a_endDate = computeEnd startDate duration, a_fees = fees\<rparr> \<and>
     invoice_insert (now ctx)
       (createInvoice ctx (newId (map i_id (invoices d))) customerId gymId startDate duration fees)
       (invoices d) = Inr (saved, invoices d @ [saved]) \<and>
     txn = createTransaction ctx (newId (map t_id (transactions d))) customerId gymId
             (i_id saved) duration fees \<and>
     assignments d' = assignments d @ [a] \<and>
     invoices d' = invoices d @ [saved] \<and>
     transactions d' = transactions d @ [txn] \<and>
     customers d' =
       (case customers d customerId of
          None \<Rightarrow> customers d
        | Some c \<Rightarrow> (customers d)(customerId \<mapsto>
                     c\<lparr>personalTrainer := Some a, totalSpent := totalSpent c + fees\<rparr>))"
proof (cases "create_fields b")
  case None
  with assms show ?thesis by (simp add: createAssignment_def)
next
  case (Some flds)
  obtain customerId trainerId gymId startDate duration fees
    where flds: "flds = (customerId, trainerId, gymId, startDate, duration, fees)"
    by (cases flds) auto
  let ?a = "\<lparr>a_id = newId (map a_id (assignments d)), a_customerId = customerId,
          a_trainerId = trainerId, a_gymId = gymId, a_startDate = startDate,
          a_duration = duration, a_endDate = computeEnd startDate duration, a_fees = fees\<rparr>"
  let ?iv = "createInvoice ctx (newId (map i_id (invoices d))) customerId gymId startDate duration fees"
  from assms Some flds have v: "assignmentValid ctx ?a"
    by (auto simp: createAssignment_def Let_def split: if_splits)
  show ?thesis
  proof (cases "invoice_insert (now ctx) ?iv (invoices d)")
    case (Inl e)
    with assms Some flds v show ?thesis
      by (simp add: createAssignment_def Let_def)
  next
    case (Inr r)
    obtain saved invs where r: "r = (saved, invs)" by (cases r) auto
    with Inr have invs: "invs = invoices d @ [saved]"
      using invoice_insert_Inr by blast
    let ?t = "createTransaction ctx (newId (map t_id (transactions d))) customerId gymId
             (i_id saved) duration fees"
    from assms Some flds v Inr r have tv: "transactionValid ctx ?t"
      by (auto simp: createAssignment_def Let_def split: if_splits)
    from assms Some flds v Inr r tv invs
    have "st = 201" "p = Docs ?a saved ?t"
      "d' = updateCustomer customerId (\<lambda>c. c\<lparr>totalSpent := totalSpent c + fees\<rparr>)
              ((updateCustomer customerId (\<lambda>c. c\<lparr>personalTrainer := Some ?a\<rparr>)
                 (d\<lparr>assignments := assignments d @ [?a]\<rparr>))
               \<lparr>invoices := invoices d @ [saved], transactions := transactions d @ [?t]\<rparr>)"
      by (simp_all add: createAssignment_def Let_def)
    then show ?thesis
      using Some flds Inr r invs
      by (simp add: updateCustomer_customers split: option.splits)
  qed
qed

lemma succeededE:
  assumes "succeeded (fst r)"
  obtains st p d' where "r = (Json st p, d')"
proof -
  obtain rep d' where r: "r = (rep, d')" by (cases r) auto
  with assms obtain st p where "rep = Json st p" by (cases rep) auto
  with r that show ?thesis by blast
qed

lemma renewAssignment_success:
  assumes "renewAssignment ctx i b d = (Json st p, d')"
  shows "\<exists>startDate duration endDate fees gymId old a cust saved txn.
     renew_fields b = Some (startDate, duration, endDate, fees, gymId) \<and>
     findById i (assignments d) = Some old \<and>
     a = old\<lparr>a_startDate := startDate, a_duration := duration, a_endDate := endDate,
             a_fees := fees\<rparr> \<and>
     customers d (a_customerId old) = Some cust \<and>
     st = 200 \<and> p = Docs a saved txn \<and>
     invoice_insert (now ctx)
       (renewalInvoice ctx (newId (map i_id (invoices d))) (a_customerId old) gymId
          startDate duration endDate fees)
       (invoices d) = Inr (saved, invoices d @ [saved]) \<and>
     txn = renewalTransaction ctx b (newId (map t_id (transactions d))) (a_customerId old)
             gymId (i_id saved) duration fees \<and>
     assignments d' = replaceFirst (\<lambda>x. a_id x = i) (\<lambda>x. a) (assignments d) \<and>
     invoices d' = invoices d @ [saved] \<and>
     transactions d' = transactions d @ [txn] \<and>
     customers d' = (customers d)(a_customerId old \<mapsto>
                       cust\<lparr>personalTrainer := Some a, totalSpent := totalSpent cust + fees\<rparr>)"
proof (cases "renew_fields b")
  case None
  with assms show ?thesis by (simp add: renewAssignment_def)
next
  case (Some flds)
  obtain startDate duration endDate fees gymId
    where flds: "flds = (startDate, duration, endDate, fees, gymId)"
    by (cases flds) auto
  show ?thesis
  proof (cases "findById i (assignments d)")
    case None
    with assms Some flds show ?thesis by (simp add: renewAssignment_def)
  next
    case old: (Some old)
    let ?a = "old\<lparr>a_startDate := startDate, a_duration := duration, a_endDate := endDate,
             a_fees := fees\<rparr>"
    show ?thesis
    proof (cases "customers d (a_customerId old)")
      case None
      with assms Some flds old show ?thesis by (simp add: renewAssignment_def Let_def)
    next
      case cust: (Some cust)
      let ?iv = "renewalInvoice ctx (newId (map i_id (invoices d))) (a_customerId old) gymId
          startDate duration endDate fees"
      show ?thesis
      proof (cases "invoice_insert (now ctx) ?iv (invoices d)")
        case (Inl e)
        with assms Some flds old cust show ?thesis
          by (simp add: renewAssignment_def Let_def)
      next
        case (Inr r)
        obtain saved invs where r: "r = (saved, invs)" by (cases r) auto
        with Inr have invs: "invs = invoices d @ [saved]"
          using invoice_insert_Inr by blast
        let ?t = "renewalTransaction ctx b (newId (map t_id (transactions d))) (a_customerId old)
             gymId (i_id saved) duration fees"
        from assms Some flds old cust Inr r have tv: "transactionValid ctx ?t"
          by (auto simp: renewAssignment_def Let_def split: if_splits)
        from assms Some flds old cust Inr r tv invs
        have "st = 200" "p = Docs ?a saved ?t"
          "d' = updateCustomer (a_customerId old) (\<lambda>c. c\<lparr>totalSpent := totalSpent c + fees\<rparr>)
              ((updateCustomer (a_customerId old) (\<lambda>c. c\<lparr>personalTrainer := Some ?a\<rparr>)
                 (d\<lparr>assignments := replaceFirst (\<lambda>x. a_id x = i) (\<lambda>x. ?a) (assignments d)\<rparr>))
               \<lparr>invoices := invoices d @ [saved], transactions := transactions d @ [?t]\<rparr>)"
          by (simp_all add: renewAssignment_def Let_def)
        then show ?thesis
          using Some flds old cust Inr r invs
          by (simp add: updateCustomer_customers)
      qed
    qed
  qed
qed

lemma deleteAssignment_found:
  assumes "findById i (assignments d) = Some a"
  shows "deleteAssignment i d =
    (Json 200 (Message ''Assignment deleted successfully.''),
     (updateCustomer (a_customerId a) (\<lambda>c. c\<lparr>personalTrainer := None\<rparr>) d)
       \<lparr>invoices := filter (\<lambda>iv. \<not> ptInvoice (a_customerId a) (a_gymId a) iv) (invoices d),
        transactions := filter (\<lambda>t. \<not> ptTransaction (a_customerId a) (a_gymId a)
                                 [''PERSONAL_TRAINING'', ''PERSONAL_TRAINING_RENEWAL''] t)
                          (transactions d),
        assignments := deleteFirst (\<lambda>x. a_id x = i) (assignments d)\<rparr>)"
  using assms by (simp add: deleteAssignment_def Let_def)


lemma updateAssignment_success:
  assumes "updateAssignment ctx i b d = (Json st p, d')"
  shows "\<exists>customerId trainerId gymId startDate duration fees old a.
     create_fields b = Some (customerId, trainerId, gymId, startDate, duration, fees) \<and>
     findById i (assignments d) = Some old \<and>
     a = old\<lparr>a_customerId := customerId, a_trainerId := trainerId, a_gymId := gymId,
             a_startDate := startDate, a_duration := duration,
             a_endDate := computeEnd startDate duration, a_fees := fees\<rparr> \<and>
     st = 200 \<and> p = AssignmentDoc a \<and>
     assignments d' = replaceFirst (\<lambda>x. a_id x = i) (\<lambda>x. a) (assignments d) \<and>
     customers d' =
       (case customers d customerId of
          None \<Rightarrow> customers d
        | Some c \<Rightarrow> (customers d)(customerId \<mapsto> c\<lparr>personalTrainer := Some a\<rparr>)) \<and>
     (case newest i_createdAt (filter (ptInvoice customerId gymId) (invoices d)) of
        None \<Rightarrow> invoices d' = invoices d
      | Some iv \<Rightarrow>
          \<exists>saved. invoice_update (now ctx)
                    (iv\<lparr>i_amount := fees, dueDate := computeEnd startDate duration,
                        items := [ptItem duration fees],
                        i_notes := ''Personal training assignment starting '' @
                                   toLocaleDateString ctx startDate\<rparr>)
                    (invoices d) = Inr (saved, invoices d')) \<and>
     (case newest t_createdAt
             (filter (ptTransaction customerId gymId [''PERSONAL_TRAINING'']) (transactions d)) of
        None \<Rightarrow> transactions d' = transactions d
      | Some t \<Rightarrow>
          transactionValid ctx
            (t\<lparr>t_amount := fees,
               t_description := ''Personal training fees for '' @ String_int duration @ '' month(s)'',
               transactionDate := now ctx\<rparr>) \<and>
          transactions d' =
            replaceFirst (\<lambda>u. t_id u = t_id t)
              (\<lambda>u. t\<lparr>t_amount := fees,
                       t_description := ''Personal training fees for '' @ String_int duration @
                                        '' month(s)'',
                       transactionDate := now ctx\<rparr>)
              (transactions d))"
proof (cases "create_fields b")
  case None
  with assms show ?thesis by (simp add: updateAssignment_def)
next
  case (Some flds)
  obtain customerId trainerId gymId startDate duration fees
    where flds: "flds = (customerId, trainerId, gymId, startDate, duration, fees)"
    by (cases flds) auto
  show ?thesis
  proof (cases "findById i (assignments d)")
    case None
    with assms Some flds show ?thesis by (simp add: updateAssignment_def Let_def)
  next
    case old: (Some old)
    from assms Some flds old show ?thesis
      by (auto simp: updateAssignment_def Let_def updateCustomer_customers
          split: option.splits sum.splits if_splits prod.splits)
  qed
qed

section \<open>Facts about lists of documents\<close>

lemma length_replaceFirst [simp]: "length (replaceFirst P f xs) = length xs"
  by (induction xs) auto

lemma find_replaceFirst:
  "find P xs = Some x \<Longrightarrow> P y \<Longrightarrow> find P (replaceFirst P (\<lambda>u. y) xs) = Some y"
  by (induction xs) (auto split: if_splits)

lemma replaceFirst_distinct:
  "distinct (map k xs) \<Longrightarrow> x \<in> set xs \<Longrightarrow>
   replaceFirst (\<lambda>j. k j = k x) (\<lambda>j. y) xs = map (\<lambda>j. if j = x then y else j) xs"
proof (induction xs)
  case Nil
  then show ?case by simp
next
  case (Cons z zs)
  show ?case
  proof (cases "z = x")
    case True
    with Cons.prems have "\<forall>j\<in>set zs. j \<noteq> x" by auto
    then have "map (\<lambda>j. if j = x then y else j) zs = zs"
      by (simp add: map_idI)
    with True show ?thesis by simp
  next
    case False
    with Cons.prems have "x \<in> set zs" "k z \<noteq> k x" by auto
    with Cons show ?thesis using False by simp
  qed
qed

lemma find_deleteFirst_distinct:
  "distinct (map k xs) \<Longrightarrow> find (\<lambda>a. k a = i) (deleteFirst (\<lambda>a. k a = i) xs) = None"
proof (induction xs)
  case Nil
  then show ?case by simp
next
  case (Cons z zs)
  show ?case
  proof (cases "k z = i")
    case True
    with Cons.prems have "\<forall>x\<in>set zs. k x \<noteq> i" by (auto simp: image_iff)
    with True show ?thesis by (simp add: find_None_iff)
  next
    case False
    with Cons show ?thesis by simp
  qed
qed

lemma newest_mem: "newest f xs = Some x \<Longrightarrow> x \<in> set xs"
  by (induction xs arbitrary: x) (auto split: option.splits if_splits)

lemma newest_None: "newest f xs = None \<longleftrightarrow> xs = []"
  by (cases xs) (auto split: option.splits)

lemma newest_max: "newest f xs = Some x \<Longrightarrow> y \<in> set xs \<Longrightarrow> f y \<le> f x"
proof (induction xs arbitrary: x)
  case Nil
  then show ?case by simp
next
  case (Cons z zs)
  show ?case
  proof (cases "newest f zs")
    case None
    then have "zs = []" by (simp add: newest_None)
    with Cons.prems show ?thesis by simp
  next
    case (Some w)
    have w: "y \<in> set zs \<Longrightarrow> f y \<le> f w"
      using Cons.IH [OF Some] by simp
    show ?thesis
    proof (cases "f z < f w")
      case True
      with Some Cons.prems(1) have "x = w" by simp
      with True w Cons.prems(2) show ?thesis by auto
    next
      case False
      with Some Cons.prems(1) have "x = z" by simp
      with False w Cons.prems(2) show ?thesis by auto
    qed
  qed
qed

lemma matches_PT_prefix: "matches_PT (''Personal Training'' @ s)"
  by (simp add: matches_PT_def)

lemma ptItem_matches: "matches_PT (description (ptItem n f))"
  using matches_PT_prefix [of "'' with '' @ String_int n @ '' month(s) duration''"]
  by (simp add: ptItem_def)

lemma ptInvoice_inv_of [simp]: "ptInvoice c g (inv_of i c' g' n t) \<longleftrightarrow> c' = c \<and> g' = g"
  by (simp add: ptInvoice_def inv_of_def ptItem_matches)

section \<open>The claims about deletion and the two queries\<close>

text \<open>
  Claim C6. For an id that is the id of a stored assignment, \<open>deleteAssignment\<close> answers
  200 and leaves a state in which the \<open>personalTrainer\<close> of the assignment's customer is
  unset whatever it referred to, every invoice of that customer and gym with an item
  description matching \<^verbatim>\<open>/Personal Training/\<close> is gone, every transaction of that
  customer and gym of type \<^verbatim>\<open>PERSONAL_TRAINING\<close> or \<^verbatim>\<open>PERSONAL_TRAINING_RENEWAL\<close> is
  gone (none of the three is restricted to the assignment deleted), and the assignment
  with that id is removed; with unique ids no assignment has the id afterwards.
\<close>

theorem deleteAssignment_removes_all:
  assumes "findById i (assignments d) = Some a"
  shows "fst (deleteAssignment i d) = Json 200 (Message ''Assignment deleted successfully.'') \<and>
    customers (snd (deleteAssignment i d)) =
      (\<lambda>c. if c = a_customerId a
           then map_option (\<lambda>cu. cu\<lparr>personalTrainer := None\<rparr>) (customers d c)
           else customers d c) \<and>
    invoices (snd (deleteAssignment i d)) =
      filter (\<lambda>iv. \<not> (i_customerId iv = a_customerId a \<and> i_gymId iv = a_gymId a \<and>
                       list_ex (\<lambda>it. matches_PT (description it)) (items iv)))
        (invoices d) \<and>
    transactions (snd (deleteAssignment i d)) =
      filter (\<lambda>t. \<not> (t_userId t = a_customerId a \<and> t_gymId t = a_gymId a \<and>
                      transactionType t \<in> {''PERSONAL_TRAINING'', ''PERSONAL_TRAINING_RENEWAL''}))
        (transactions d) \<and>
    assignments (snd (deleteAssignment i d)) = deleteFirst (\<lambda>x. a_id x = i) (assignments d) \<and>
    (distinct (map a_id (assignments d)) \<longrightarrow>
       findById i (assignments (snd (deleteAssignment i d))) = None)"
proof -
  have "customers (updateCustomer (a_customerId a) (\<lambda>c. c\<lparr>personalTrainer := None\<rparr>) d) =
      (\<lambda>c. if c = a_customerId a
           then map_option (\<lambda>cu. cu\<lparr>personalTrainer := None\<rparr>) (customers d c)
           else customers d c)"
    by (auto simp: updateCustomer_customers split: option.splits)
  then show ?thesis
    by (simp add: deleteAssignment_found [OF assms] ptInvoice_def ptTransaction_def
        findById_def find_deleteFirst_distinct)
qed

theorem deleteAssignment_removes_all_witness:
  "fst (deleteAssignment 1 db_two) = Json 200 (Message ''Assignment deleted successfully.'') \<and>
   map_option personalTrainer (customers (snd (deleteAssignment 1 db_two)) 7) = Some None \<and>
   map i_id (invoices (snd (deleteAssignment 1 db_two))) = [3] \<and>
   map t_id (transactions (snd (deleteAssignment 1 db_two))) = [3] \<and>
   map a_id (assignments (snd (deleteAssignment 1 db_two))) = [2, 3] \<and>
   findById 1 (assignments (snd (deleteAssignment 1 db_two))) = None"
proof -
  have f: "findById 1 (assignments db_two) = Some (asg 1 7 5)"
    by (simp add: findById_def db_two_def asg_def)
  note th = deleteAssignment_removes_all [OF f]
  note c1 = th [THEN conjunct1]
  note c2 = th [THEN conjunct2, THEN conjunct1]
  note c3 = th [THEN conjunct2, THEN conjunct2, THEN conjunct1]
  note c4 = th [THEN conjunct2, THEN conjunct2, THEN conjunct2, THEN conjunct1]
  note c5 = th [THEN conjunct2, THEN conjunct2, THEN conjunct2, THEN conjunct2, THEN conjunct1]
  show ?thesis
    unfolding c1 c2 c3 c4 c5
    by (simp add: db_two_def asg_def inv_of_def txn_of_def findById_def ptItem_matches)
qed



lemma getExpiring_days:
  "getExpiringAssignments ctx gymId d =
     Json 200 (Assignments
       (filter (\<lambda>a. MakeDate (Day (now ctx)) (MakeTime 0 0 0 0) \<le> a_endDate a \<and>
                    a_endDate a \<le> MakeDate (Day (now ctx) + 7) (MakeTime 23 59 59 999) \<and>
                    (case gymId of Some g \<Rightarrow> a_gymId a = g | None \<Rightarrow> True))
          (assignments d)))"
  "getExpiringAssignments ctx gymId d =
     Json 200 (Assignments
       (filter (\<lambda>a. Day (now ctx) \<le> Day (a_endDate a) \<and> Day (a_endDate a) \<le> Day (now ctx) + 7 \<and>
                    (case gymId of Some g \<Rightarrow> a_gymId a = g | None \<Rightarrow> True))
          (assignments d)))"
proof -
  let ?today = "setHours (now ctx) 0 0 0 0"
  have t: "?today = MakeDate (Day (now ctx)) (MakeTime 0 0 0 0)"
    by (simp add: setHours_def)
  have "setDate ?today (getDate ?today + 7) = ?today + 7 * msPerDay"
    by (rule setDate_shift)
  then have "Day (setDate ?today (getDate ?today + 7)) = Day (now ctx) + 7"
    by (simp add: t MakeDate_def MakeTime_def Day_def msPerDay_def)
  then have s: "setHours (setDate ?today (getDate ?today + 7)) 23 59 59 999 =
      MakeDate (Day (now ctx) + 7) (MakeTime 23 59 59 999)"
    by (simp add: setHours_def)
  have lo: "MakeDate n (MakeTime 0 0 0 0) \<le> e \<longleftrightarrow> n \<le> Day e" for n e
    unfolding MakeDate_def MakeTime_def Day_def msPerDay_def by linarith
  have hi: "e \<le> MakeDate n (MakeTime 23 59 59 999) \<longleftrightarrow> Day e \<le> n" for n e
    unfolding MakeDate_def MakeTime_def Day_def msPerDay_def by linarith
  show 1: "getExpiringAssignments ctx gymId d =
     Json 200 (Assignments
       (filter (\<lambda>a. MakeDate (Day (now ctx)) (MakeTime 0 0 0 0) \<le> a_endDate a \<and>
                    a_endDate a \<le> MakeDate (Day (now ctx) + 7) (MakeTime 23 59 59 999) \<and>
                    (case gymId of Some g \<Rightarrow> a_gymId a = g | None \<Rightarrow> True))
          (assignments d)))"
    unfolding getExpiringAssignments_def Let_def s unfolding t ..
  show "getExpiringAssignments ctx gymId d =
     Json 200 (Assignments
       (filter (\<lambda>a. Day (now ctx) \<le> Day (a_endDate a) \<and> Day (a_endDate a) \<le> Day (now ctx) + 7 \<and>
                    (case gymId of Some g \<Rightarrow> a_gymId a = g | None \<Rightarrow> True))
          (assignments d)))"
    unfolding 1 by (simp add: lo hi)
qed

text \<open>
  Claim C8. \<open>getExpiringAssignments\<close> returns exactly the assignments (of the given gym,
  when one is given) whose end date lies between 00:00:00.000 of the current day and
  23:59:59.999 of the seventh day after it, that is, whose end date falls on one of the
  calendar days today, ..., today + 7: an end date on the current day is returned and
  an end date on the eighth day after it is not.
\<close>

theorem getExpiringAssignments_window:
  "getExpiringAssignments ctx gymId d =
     Json 200 (Assignments
       (filter (\<lambda>a. MakeDate (Day (now ctx)) (MakeTime 0 0 0 0) \<le> a_endDate a \<and>
                    a_endDate a \<le> MakeDate (Day (now ctx) + 7) (MakeTime 23 59 59 999) \<and>
                    (case gymId of Some g \<Rightarrow> a_gymId a = g | None \<Rightarrow> True))
          (assignments d))) \<and>
   getExpiringAssignments ctx gymId d =
     Json 200 (Assignments
       (filter (\<lambda>a. Day (now ctx) \<le> Day (a_endDate a) \<and> Day (a_endDate a) \<le> Day (now ctx) + 7 \<and>
                    (case gymId of Some g \<Rightarrow> a_gymId a = g | None \<Rightarrow> True))
          (assignments d))) \<and>
   (x \<in> set (assignments d) \<and> Day (a_endDate x) = Day (now ctx) \<longrightarrow>
      (\<exists>as. getExpiringAssignments ctx None d = Json 200 (Assignments as) \<and> x \<in> set as)) \<and>
   (Day (a_endDate x) = Day (now ctx) + 8 \<longrightarrow>
      (\<exists>as. getExpiringAssignments ctx gymId d = Json 200 (Assignments as) \<and> x \<notin> set as))"
proof -
  note g = getExpiring_days [of ctx gymId d]
  have inc: "\<exists>as. getExpiringAssignments ctx None d = Json 200 (Assignments as) \<and> x \<in> set as"
    if "x \<in> set (assignments d) \<and> Day (a_endDate x) = Day (now ctx)"
    using that unfolding getExpiring_days(2) [of ctx None d] by simp
  have exc: "\<exists>as. getExpiringAssignments ctx gymId d = Json 200 (Assignments as) \<and> x \<notin> set as"
    if "Day (a_endDate x) = Day (now ctx) + 8"
    using that unfolding g(2) by simp
  from g inc exc show ?thesis by blast
qed

theorem getExpiringAssignments_window_witness:
  "\<exists>as. getExpiringAssignments (ctx_at (civil 2024 3 10 + 43200000)) None db_exp =
           Json 200 (Assignments as) \<and>
        map a_id (assignments db_exp) = [1, 2, 3, 4] \<and> map a_id as = [1, 2]"
proof -
  have d: "Day (civil 2024 3 10 + 43200000) = Day (civil 2024 3 10)"
    "Day (civil 2024 3 10 + 18000000) = Day (civil 2024 3 10)"
    "Day (civil 2024 3 17 + 86399999) = Day (civil 2024 3 10) + 7"
    "Day (civil 2024 3 18) = Day (civil 2024 3 10) + 8"
    "Day (civil 2024 3 10 - 1) = Day (civil 2024 3 10) - 1"
    by (simp_all add: civil_def MakeDate_def Day_def msPerDay_def MakeDay_def DayFromYear_def
        DaysBeforeMonth_def InLeapYear_def DaysInYear_def)
  have n: "now (ctx_at t) = t" for t
    by (simp add: ctx_at_def)
  note th = getExpiringAssignments_window [where ctx = "ctx_at (civil 2024 3 10 + 43200000)"
      and gymId = None and d = db_exp and x = "asg_end 3 5 (civil 2024 3 18)"]
  from th [THEN conjunct2, THEN conjunct1]
  have "getExpiringAssignments (ctx_at (civil 2024 3 10 + 43200000)) None db_exp =
     Json 200 (Assignments
       (filter (\<lambda>a. Day (civil 2024 3 10) \<le> Day (a_endDate a) \<and>
                    Day (a_endDate a) \<le> Day (civil 2024 3 10) + 7)
          (assignments db_exp)))"
    by (simp add: n d(1))
  then show ?thesis
    by (simp add: db_exp_def asg_end_def asg_def d)
qed

text \<open>
  Claim C10. Without a \<open>gymId\<close> query parameter, \<open>getAssignments\<close> returns every stored
  assignment and \<open>getExpiringAssignments\<close> every stored assignment in the window,
  whatever gym it belongs to and whoever is the caller: neither reads the caller's gym.
\<close>

theorem queries_without_gymId:
  "getAssignments ctx None d = Json 200 (Assignments (assignments d)) \<and>
   getExpiringAssignments ctx None d =
     Json 200 (Assignments
       (filter (\<lambda>a. Day (now ctx) \<le> Day (a_endDate a) \<and> Day (a_endDate a) \<le> Day (now ctx) + 7)
          (assignments d))) \<and>
   getAssignments (ctx\<lparr>user_gymId := g\<rparr>) None d = getAssignments ctx None d \<and>
   getExpiringAssignments (ctx\<lparr>user_gymId := g\<rparr>) None d = getExpiringAssignments ctx None d"
proof -
  have "getExpiringAssignments (ctx\<lparr>user_gymId := g\<rparr>) None d = getExpiringAssignments ctx None d"
    by (simp add: getExpiringAssignments_def)
  then show ?thesis
    using getExpiring_days(2) [of ctx None d] by (simp add: getAssignments_def)
qed

theorem queries_without_gymId_witness:
  "getAssignments (ctx_at 0) None db_two = Json 200 (Assignments [asg 1 7 5, asg 2 7 5, asg 3 8 6]) \<and>
   user_gymId (ctx_at 0) = Some 5 \<and> map a_gymId [asg 1 7 5, asg 2 7 5, asg 3 8 6] = [5, 5, 6]"
  using queries_without_gymId [of "ctx_at 0" db_two]
  by (simp add: db_two_def ctx_at_def asg_def)

section \<open>The examples, evaluated\<close>


lemma computeEnd_jan31: "computeEnd (civil 2024 1 31) 1 = civil 2024 3 1"
  by code_simp

lemma spec_endDate_jan31:
  "spec_endDate (civil 2024 1 31) 1 = civil 2024 2 28 \<and> civil 2024 2 28 < civil 2024 3 1"
  by code_simp

lemma civil_readings:
  "(YearFromTime (civil 2024 1 31), MonthFromTime (civil 2024 1 31),
    DateFromTime (civil 2024 1 31)) = (2024, 0, 31)"
  "(YearFromTime (civil 2024 3 1), MonthFromTime (civil 2024 3 1),
    DateFromTime (civil 2024 3 1)) = (2024, 2, 1)"
  "(YearFromTime (civil 2024 2 28), MonthFromTime (civil 2024 2 28),
    DateFromTime (civil 2024 2 28)) = (2024, 1, 28)"
  by code_simp+

lemma String_int_1: "String_int 1 = ''1''"
  by (simp add: String_int_def String_nat.simps digit_char_def char_of_def bit_iff_odd)

lemma String_int_2: "String_int 2 = ''2''"
  by (simp add: String_int_def String_nat.simps digit_char_def char_of_def bit_iff_odd)


lemma number_1: "padStart 5 CHR ''0'' (String_nat (Suc 0)) = ''00001''"
  using invoiceNo_1 by (simp add: invoiceNo_def)

lemma number_2: "padStart 5 CHR ''0'' (String_nat 2) = ''00002''"
  using invoiceNo_2 by (simp add: invoiceNo_def)

lemma nextNumber_after_1: "invoiceNumber iv = ''INV00001'' \<Longrightarrow> nextNumber [iv] = 2"
proof -
  assume a: "invoiceNumber iv = ''INV00001''"
  have "match_INV (invoiceNo 1) = Some (padStart 5 CHR ''0'' (String_nat 1))"
    by (rule match_invoiceNo)
  then show ?thesis
    using invoiceNo_nonempty [of 1]
    by (simp add: nextNumber_def a invoiceNo_1 [symmetric] parseInt_padStart)
qed

lemma newId_Nil: "newId [] = Suc 0"
  by (simp add: newId_def)

lemma newId_one: "newId [Suc 0] = 2"
  by (simp add: newId_def)

lemmas example_defs =
  ctx_at_def body_create_def body_renew_def db_start_def db_one_def asg_def inv_of_def
  txn_of_def create_fields_def renew_fields_def truthy_def newId_Nil newId_one createInvoice_def
  createTransaction_def renewalInvoice_def renewalTransaction_def invoice_insert_def
  invoice_update_def numberHook_def invoiceValid_def itemValid_def updateCustomer_def
  findById_def


lemma fold_max_ge: "m \<le> fold max xs (m::nat) \<and> (\<forall>x\<in>set xs. x \<le> fold max xs m)"
proof (induction xs arbitrary: m)
  case Nil
  then show ?case by simp
next
  case (Cons y ys)
  have "max y m \<le> fold max ys (max y m)" "\<forall>x\<in>set ys. x \<le> fold max ys (max y m)"
    using Cons.IH [of "max y m"] by simp_all
  then show ?case by auto
qed

lemma newId_fresh: "newId ids \<notin> set ids"
proof
  assume "newId ids \<in> set ids"
  then have "newId ids \<le> fold max ids 0"
    using fold_max_ge [of 0 ids] by blast
  then show False by (simp add: newId_def)
qed

lemma renew_example_succeeds:
  "succeeded (fst (renewAssignment (ctx_at 2000) 1 body_renew db_one))"
  by (simp add: renewAssignment_def example_defs Let_def nextNumber_after_1
      number_2 String_int_2)

section \<open>The claims about the running total and renewal\<close>



text \<open>
  Claim C7. When a renewal completes successfully, the assignment stored under the id
  carries the end date of the request as it was sent (no end date is computed), and
  the invoice and transaction collections are the old ones with one new document added
  at the end of each: an invoice with a new id, the fee as amount and the end date as
  due date, and a transaction of type \<^verbatim>\<open>PERSONAL_TRAINING_RENEWAL\<close> for it. No stored
  invoice or transaction is changed, so a second successful renewal leaves two more
  invoices than there were.
\<close>

theorem renewAssignment_appends:
  assumes "succeeded (fst (renewAssignment ctx i b d))"
    and "renew_fields b = Some (startDate, duration, endDate, fees, gymId)"
  shows "map_option a_endDate (findById i (assignments (snd (renewAssignment ctx i b d)))) =
           Some endDate \<and>
    (\<exists>saved txn.
       invoices (snd (renewAssignment ctx i b d)) = invoices d @ [saved] \<and>
       transactions (snd (renewAssignment ctx i b d)) = transactions d @ [txn] \<and>
       i_id saved \<notin> set (map i_id (invoices d)) \<and> i_amount saved = fees \<and>
       dueDate saved = endDate \<and>
       transactionType txn = ''PERSONAL_TRAINING_RENEWAL'' \<and> t_amount txn = fees \<and>
       invoiceId txn = i_id saved) \<and>
    (succeeded (fst (renewAssignment ctx' i' b' (snd (renewAssignment ctx i b d)))) \<longrightarrow>
       take (length (invoices d))
         (invoices (snd (renewAssignment ctx' i' b' (snd (renewAssignment ctx i b d))))) =
         invoices d \<and>
       length (invoices (snd (renewAssignment ctx' i' b' (snd (renewAssignment ctx i b d))))) =
         length (invoices d) + 2)"
proof -
  from assms(1) obtain st p d1 where r: "renewAssignment ctx i b d = (Json st p, d1)"
    by (rule succeededE)
  from renewAssignment_success [OF r] assms(2) obtain old saved txn where
    old: "findById i (assignments d) = Some old"
    and a: "assignments d1 = replaceFirst (\<lambda>x. a_id x = i)
              (\<lambda>x. old\<lparr>a_startDate := startDate, a_duration := duration,
                         a_endDate := endDate, a_fees := fees\<rparr>) (assignments d)"
    and ins: "invoice_insert (now ctx)
       (renewalInvoice ctx (newId (map i_id (invoices d))) (a_customerId old) gymId
          startDate duration endDate fees)
       (invoices d) = Inr (saved, invoices d @ [saved])"
    and txn: "txn = renewalTransaction ctx b (newId (map t_id (transactions d)))
                (a_customerId old) gymId (i_id saved) duration fees"
    and iv: "invoices d1 = invoices d @ [saved]"
    and tr: "transactions d1 = transactions d @ [txn]"
    by auto
  from old have "a_id old = i"
    by (auto simp: findById_def find_Some_iff)
  with old have "findById i (assignments d1) =
      Some (old\<lparr>a_startDate := startDate, a_duration := duration,
                 a_endDate := endDate, a_fees := fees\<rparr>)"
    unfolding a findById_def by (intro find_replaceFirst) simp_all
  then have 1: "map_option a_endDate (findById i (assignments d1)) = Some endDate"
    by simp
  from invoice_insert_Inr [OF ins]
  have s: "i_id saved = newId (map i_id (invoices d))" "i_amount saved = fees"
    "dueDate saved = endDate"
    by (simp_all add: renewalInvoice_def)
  have 2: "i_id saved \<notin> set (map i_id (invoices d))"
    unfolding s(1) by (rule newId_fresh)
  have 3: "transactionType txn = ''PERSONAL_TRAINING_RENEWAL''" "t_amount txn = fees"
    "invoiceId txn = i_id saved"
    by (simp_all add: txn renewalTransaction_def)
  have 4: "take (length (invoices d)) (invoices (snd (renewAssignment ctx' i' b' d1))) = invoices d \<and>
      length (invoices (snd (renewAssignment ctx' i' b' d1))) = length (invoices d) + 2"
    if "succeeded (fst (renewAssignment ctx' i' b' d1))"
  proof -
    from that obtain st' p' d2 where r': "renewAssignment ctx' i' b' d1 = (Json st' p', d2)"
      by (rule succeededE)
    from renewAssignment_success [OF r'] obtain saved' where
      "invoices d2 = invoices d1 @ [saved']"
      by auto
    with r' iv show ?thesis by simp
  qed
  from 1 2 3 4 s iv tr r show ?thesis by simp
qed

theorem renewAssignment_appends_witness:
  "succeeded (fst (renewAssignment (ctx_at 2000) 1 body_renew db_one)) \<and>
   map_option a_endDate (findById 1 (assignments db_one)) = Some (civil 2024 4 14) \<and>
   map_option a_endDate
     (findById 1 (assignments (snd (renewAssignment (ctx_at 2000) 1 body_renew db_one)))) =
     Some (civil 2025 1 1) \<and>
   length (invoices db_one) = 1 \<and>
   length (invoices (snd (renewAssignment (ctx_at 2000) 1 body_renew db_one))) = 2 \<and>
   length (transactions (snd (renewAssignment (ctx_at 2000) 1 body_renew db_one))) = 2"
proof -
  have 4: "renew_fields body_renew = Some (civil 2024 4 15, 2, civil 2025 1 1, 150, 5)"
    by (simp add: renew_fields_def body_renew_def truthy_def)
  from renewAssignment_appends [OF renew_example_succeeds 4]
  obtain saved txn where
    "map_option a_endDate
       (findById 1 (assignments (snd (renewAssignment (ctx_at 2000) 1 body_renew db_one)))) =
     Some (civil 2025 1 1)"
    "invoices (snd (renewAssignment (ctx_at 2000) 1 body_renew db_one)) = invoices db_one @ [saved]"
    "transactions (snd (renewAssignment (ctx_at 2000) 1 body_renew db_one)) =
       transactions db_one @ [txn]"
    by blast
  then show ?thesis
    using renew_example_succeeds by (simp add: db_one_def findById_def asg_def)
qed

section \<open>The end date\<close>

lemma createAssignment_endDate:
  assumes "createAssignment ctx b d = (Json st (Docs a iv t), d')"
    and "create_fields b = Some (customerId, trainerId, gymId, startDate, duration, fees)"
  shows "a_endDate a = computeEnd startDate duration"
  using createAssignment_success [OF assms(1)] assms(2) by auto

lemma updateAssignment_endDate:
  assumes "updateAssignment ctx i b d = (Json st (AssignmentDoc a), d')"
    and "create_fields b = Some (customerId, trainerId, gymId, startDate, duration, fees)"
  shows "a_endDate a = computeEnd startDate duration"
  using updateAssignment_success [OF assms(1)] assms(2) by auto

text \<open>
  Claim C1. The end date of an assignment should be the start date plus the duration
  in calendar months, minus one day. For a start on 2024-01-31 and a duration of one
  month that is 2024-02-28, the day before 2024-02-29. Create and update store
  2024-03-01: \<^verbatim>\<open>setMonth\<close> moves January 31 to the 31st day counted from February 1,
  which is March 2.
\<close>

theorem endDate_month_end:
  "succeeded (fst (createAssignment (ctx_at 1000) body_jan31 db_start)) \<and>
   map a_endDate (assignments (snd (createAssignment (ctx_at 1000) body_jan31 db_start))) =
     [civil 2024 3 1] \<and>
   succeeded (fst (updateAssignment (ctx_at 2000) 1 body_jan31 db_one)) \<and>
   map a_endDate (assignments (snd (updateAssignment (ctx_at 2000) 1 body_jan31 db_one))) =
     [civil 2024 3 1] \<and>
   spec_endDate (civil 2024 1 31) 1 = civil 2024 2 28 \<and>
   civil 2024 2 28 < civil 2024 3 1 \<and>
   (YearFromTime (civil 2024 1 31), MonthFromTime (civil 2024 1 31),
    DateFromTime (civil 2024 1 31)) = (2024, 0, 31) \<and>
   (YearFromTime (civil 2024 3 1), MonthFromTime (civil 2024 3 1),
    DateFromTime (civil 2024 3 1)) = (2024, 2, 1) \<and>
   (YearFromTime (civil 2024 2 28), MonthFromTime (civil 2024 2 28),
    DateFromTime (civil 2024 2 28)) = (2024, 1, 28)"
proof -
  have c: "succeeded (fst (createAssignment (ctx_at 1000) body_jan31 db_start)) \<and>
     map a_endDate (assignments (snd (createAssignment (ctx_at 1000) body_jan31 db_start))) =
       [civil 2024 3 1]"
    by (simp add: createAssignment_def body_jan31_def example_defs Let_def computeEnd_jan31
        nextNumber_def number_1 ptItem_def String_int_1)
  have u: "succeeded (fst (updateAssignment (ctx_at 2000) 1 body_jan31 db_one)) \<and>
     map a_endDate (assignments (snd (updateAssignment (ctx_at 2000) 1 body_jan31 db_one))) =
       [civil 2024 3 1]"
    by (simp add: updateAssignment_def body_jan31_def example_defs Let_def computeEnd_jan31
        ptInvoice_def ptTransaction_def ptItem_matches ptItem_def String_int_1
        matches_PT_def)
  from c u spec_endDate_jan31 civil_readings show ?thesis by simp
qed

section \<open>The claim about update\<close>

lemma updateAssignment_invoices_length:
  "length (invoices (snd (updateAssignment ctx i b d))) = length (invoices d)"
  by (auto simp: updateAssignment_def Let_def
      split: option.splits sum.splits if_splits prod.splits dest!: invoice_update_Inr)

lemma updateAssignment_no_invoice:
  assumes "create_fields b = Some (customerId, trainerId, gymId, startDate, duration, fees)"
    and "filter (ptInvoice customerId gymId) (invoices d) = []"
  shows "invoices (snd (updateAssignment ctx i b d)) = invoices d"
  using assms
  by (auto simp: updateAssignment_def Let_def split: option.splits sum.splits if_splits)

lemma updateAssignment_no_match:
  assumes "create_fields b = Some (customerId, trainerId, gymId, startDate, duration, fees)"
    and "findById i (assignments d) = Some old"
    and "filter (ptInvoice customerId gymId) (invoices d) = []"
    and "filter (ptTransaction customerId gymId [''PERSONAL_TRAINING'']) (transactions d) = []"
  shows "succeeded (fst (updateAssignment ctx i b d)) \<and>
         invoices (snd (updateAssignment ctx i b d)) = invoices d \<and>
         transactions (snd (updateAssignment ctx i b d)) = transactions d"
  using assms by (simp add: updateAssignment_def Let_def)

text \<open>
  Claim C5. Let an update carry customer, gym, start, duration and fee, and let the
  stored invoices and transactions have unique ids and the invoices a number. An update
  never changes the number of invoices, also when it is repeated. When it succeeds, the
  invoices are the old ones except that the most recently created invoice of the customer
  and gym with an item description matching \<^verbatim>\<open>/Personal Training/\<close> has the new amount,
  due date (the end date), items and notes (and its update time); when there is no such
  invoice they are unchanged. The same holds for the most recently created
  \<^verbatim>\<open>PERSONAL_TRAINING\<close> transaction of the customer and gym, whose amount, description
  and date are overwritten. When neither exists and the assignment does, the update
  succeeds and writes no invoice and no transaction.
\<close>

theorem updateAssignment_overwrites_latest:
  assumes "create_fields b = Some (customerId, trainerId, gymId, startDate, duration, fees)"
    and "distinct (map i_id (invoices d))"
    and "distinct (map t_id (transactions d))"
    and "\<forall>iv\<in>set (invoices d). invoiceNumber iv \<noteq> []"
    and "U = updateAssignment ctx i b d"
  shows "length (invoices (snd U)) = length (invoices d) \<and>
    length (invoices (snd (updateAssignment ctx' i' b' (snd U)))) = length (invoices d) \<and>
    (succeeded (fst U) \<longrightarrow>
       (case newest i_createdAt (filter (ptInvoice customerId gymId) (invoices d)) of
          None \<Rightarrow> invoices (snd U) = invoices d
        | Some iv \<Rightarrow>
            ptInvoice customerId gymId iv \<and>
            (\<forall>j\<in>set (invoices d). ptInvoice customerId gymId j \<longrightarrow>
                                   i_createdAt j \<le> i_createdAt iv) \<and>
            invoices (snd U) =
              map (\<lambda>j. if j = iv
                        then iv\<lparr>i_amount := fees, dueDate := computeEnd startDate duration,
                                items := [ptItem duration fees],
                                i_notes := ''Personal training assignment starting '' @
                                           toLocaleDateString ctx startDate,
                                i_updatedAt := now ctx\<rparr>
                        else j)
                (invoices d)) \<and>
       (case newest t_createdAt
               (filter (ptTransaction customerId gymId [''PERSONAL_TRAINING'']) (transactions d)) of
          None \<Rightarrow> transactions (snd U) = transactions d
        | Some t \<Rightarrow>
            ptTransaction customerId gymId [''PERSONAL_TRAINING''] t \<and>
            (\<forall>u\<in>set (transactions d). ptTransaction customerId gymId [''PERSONAL_TRAINING''] u \<longrightarrow>
                                       t_createdAt u \<le> t_createdAt t) \<and>
            transactions (snd U) =
              map (\<lambda>u. if u = t
                        then t\<lparr>t_amount := fees,
                               t_description := ''Personal training fees for '' @
                                                String_int duration @ '' month(s)'',
                               transactionDate := now ctx\<rparr>
                        else u)
                (transactions d))) \<and>
    (findById i (assignments d) \<noteq> None \<and>
     filter (ptInvoice customerId gymId) (invoices d) = [] \<and>
     filter (ptTransaction customerId gymId [''PERSONAL_TRAINING'']) (transactions d) = [] \<longrightarrow>
       succeeded (fst U) \<and> invoices (snd U) = invoices d \<and>
       transactions (snd U) = transactions d)"
proof -
  have len: "length (invoices (snd U)) = length (invoices d)"
    "length (invoices (snd (updateAssignment ctx' i' b' (snd U)))) = length (invoices d)"
    by (simp_all add: assms(5) updateAssignment_invoices_length)
  have nomatch: "succeeded (fst U) \<and> invoices (snd U) = invoices d \<and>
       transactions (snd U) = transactions d"
    if "findById i (assignments d) \<noteq> None"
      "filter (ptInvoice customerId gymId) (invoices d) = []"
      "filter (ptTransaction customerId gymId [''PERSONAL_TRAINING'']) (transactions d) = []"
  proof -
    from that(1) obtain old where "findById i (assignments d) = Some old" by auto
    from updateAssignment_no_match [OF assms(1) this that(2,3)] show ?thesis
      by (simp add: assms(5))
  qed
  have inv_part: "(case newest i_createdAt (filter (ptInvoice customerId gymId) (invoices d)) of
          None \<Rightarrow> invoices (snd U) = invoices d
        | Some iv \<Rightarrow>
            ptInvoice customerId gymId iv \<and>
            (\<forall>j\<in>set (invoices d). ptInvoice customerId gymId j \<longrightarrow>
                                   i_createdAt j \<le> i_createdAt iv) \<and>
            invoices (snd U) =
              map (\<lambda>j. if j = iv
                        then iv\<lparr>i_amount := fees, dueDate := computeEnd startDate duration,
                                items := [ptItem duration fees],
                                i_notes := ''Personal training assignment starting '' @
                                           toLocaleDateString ctx startDate,
                                i_updatedAt := now ctx\<rparr>
                        else j)
                (invoices d))"
    and txn_part: "(case newest t_createdAt
               (filter (ptTransaction customerId gymId [''PERSONAL_TRAINING'']) (transactions d)) of
          None \<Rightarrow> transactions (snd U) = transactions d
        | Some t \<Rightarrow>
            ptTransaction customerId gymId [''PERSONAL_TRAINING''] t \<and>
            (\<forall>u\<in>set (transactions d). ptTransaction customerId gymId [''PERSONAL_TRAINING''] u \<longrightarrow>
                                       t_createdAt u \<le> t_createdAt t) \<and>
            transactions (snd U) =
              map (\<lambda>u. if u = t
                        then t\<lparr>t_amount := fees,
                               t_description := ''Personal training fees for '' @
                                                String_int duration @ '' month(s)'',
                               transactionDate := now ctx\<rparr>
                        else u)
                (transactions d))"
    if ok: "succeeded (fst U)"
  proof -
    from ok assms(5) obtain st p d' where u: "updateAssignment ctx i b d = (Json st p, d')"
      by (auto elim: succeededE)
    note s = updateAssignment_success [OF u, unfolded assms(1)]
    show "(case newest i_createdAt (filter (ptInvoice customerId gymId) (invoices d)) of
          None \<Rightarrow> invoices (snd U) = invoices d
        | Some iv \<Rightarrow>
            ptInvoice customerId gymId iv \<and>
            (\<forall>j\<in>set (invoices d). ptInvoice customerId gymId j \<longrightarrow>
                                   i_createdAt j \<le> i_createdAt iv) \<and>
            invoices (snd U) =
              map (\<lambda>j. if j = iv
                        then iv\<lparr>i_amount := fees, dueDate := computeEnd startDate duration,
                                items := [ptItem duration fees],
                                i_notes := ''Personal training assignment starting '' @
                                           toLocaleDateString ctx startDate,
                                i_updatedAt := now ctx\<rparr>
                        else j)
                (invoices d))"
    proof (cases "newest i_createdAt (filter (ptInvoice customerId gymId) (invoices d))")
      case None
      with s u assms(5) show ?thesis by auto
    next
      case (Some iv)
      let ?iv = "iv\<lparr>i_amount := fees, dueDate := computeEnd startDate duration,
                    items := [ptItem duration fees],
                    i_notes := ''Personal training assignment starting '' @
                               toLocaleDateString ctx startDate\<rparr>"
      from newest_mem [OF Some] have mem: "iv \<in> set (invoices d)" "ptInvoice customerId gymId iv"
        by simp_all
      have mx: "\<forall>j\<in>set (invoices d). ptInvoice customerId gymId j \<longrightarrow>
                  i_createdAt j \<le> i_createdAt iv"
        using newest_max [OF Some] by simp
      from s Some obtain saved where
        "invoice_update (now ctx) ?iv (invoices d) = Inr (saved, invoices d')"
        by auto
      from invoice_update_Inr [OF this]
      have "invoices d' = replaceFirst (\<lambda>j. i_id j = i_id iv) (\<lambda>j. saved) (invoices d)"
        "saved = (numberHook (invoices d) ?iv)\<lparr>i_updatedAt := now ctx\<rparr>"
        by simp_all
      moreover have "numberHook (invoices d) ?iv = ?iv"
        using mem(1) assms(4) by (simp add: numberHook_def)
      ultimately have "invoices d' =
          map (\<lambda>j. if j = iv then ?iv\<lparr>i_updatedAt := now ctx\<rparr> else j) (invoices d)"
        using replaceFirst_distinct [OF assms(2) mem(1)] by simp
      with Some mem(2) mx u assms(5) show ?thesis by simp
    qed
    show "(case newest t_createdAt
               (filter (ptTransaction customerId gymId [''PERSONAL_TRAINING'']) (transactions d)) of
          None \<Rightarrow> transactions (snd U) = transactions d
        | Some t \<Rightarrow>
            ptTransaction customerId gymId [''PERSONAL_TRAINING''] t \<and>
            (\<forall>u\<in>set (transactions d). ptTransaction customerId gymId [''PERSONAL_TRAINING''] u \<longrightarrow>
                                       t_createdAt u \<le> t_createdAt t) \<and>
            transactions (snd U) =
              map (\<lambda>u. if u = t
                        then t\<lparr>t_amount := fees,
                               t_description := ''Personal training fees for '' @
                                                String_int duration @ '' month(s)'',
                               transactionDate := now ctx\<rparr>
                        else u)
                (transactions d))"
    proof (cases "newest t_createdAt
               (filter (ptTransaction customerId gymId [''PERSONAL_TRAINING'']) (transactions d))")
      case None
      with s u assms(5) show ?thesis by auto
    next
      case (Some t)
      from newest_mem [OF Some] have mem: "t \<in> set (transactions d)"
        "ptTransaction customerId gymId [''PERSONAL_TRAINING''] t"
        by simp_all
      have mx: "\<forall>u\<in>set (transactions d). ptTransaction customerId gymId [''PERSONAL_TRAINING''] u \<longrightarrow>
                  t_createdAt u \<le> t_createdAt t"
        using newest_max [OF Some] by simp
      from s Some have "transactions d' =
            replaceFirst (\<lambda>u. t_id u = t_id t)
              (\<lambda>u. t\<lparr>t_amount := fees,
                       t_description := ''Personal training fees for '' @ String_int duration @
                                        '' month(s)'',
                       transactionDate := now ctx\<rparr>)
              (transactions d)"
        by auto
      then have "transactions d' =
          map (\<lambda>u. if u = t
                    then t\<lparr>t_amount := fees,
                           t_description := ''Personal training fees for '' @
                                            String_int duration @ '' month(s)'',
                           transactionDate := now ctx\<rparr>
                    else u)
            (transactions d)"
        using replaceFirst_distinct [OF assms(3) mem(1)] by simp
      with Some mem(2) mx u assms(5) show ?thesis by simp
    qed
  qed
  from len nomatch inv_part txn_part show ?thesis by blast
qed

theorem updateAssignment_overwrites_latest_witness:
  "succeeded (fst (updateAssignment (ctx_at 2000) 1 body_update db_one)) \<and>
   map i_amount (invoices db_one) = [100] \<and>
   map i_amount (invoices (snd (updateAssignment (ctx_at 2000) 1 body_update db_one))) = [120] \<and>
   map t_amount (transactions (snd (updateAssignment (ctx_at 2000) 1 body_update db_one))) =
     [120] \<and>
   length (invoices (snd (updateAssignment (ctx_at 3000) 1 body_update
      (snd (updateAssignment (ctx_at 2000) 1 body_update db_one))))) = 1"
proof -
  let ?U = "updateAssignment (ctx_at 2000) 1 body_update db_one"
  have 1: "create_fields body_update = Some (7, 3, 5, civil 2024 2 1, 2, 120)"
    by (simp add: create_fields_def body_update_def truthy_def)
  have 2: "distinct (map i_id (invoices db_one))"
    by (simp add: db_one_def)
  have 3: "distinct (map t_id (transactions db_one))"
    by (simp add: db_one_def)
  have 4: "\<forall>iv\<in>set (invoices db_one). invoiceNumber iv \<noteq> []"
    by (simp add: db_one_def inv_of_def)
  have ok: "succeeded (fst ?U)"
    by (simp add: updateAssignment_def body_update_def example_defs Let_def
        ptInvoice_def ptTransaction_def ptItem_matches ptItem_def String_int_2)
  have n: "newest i_createdAt (filter (ptInvoice 7 5) (invoices db_one)) =
      Some (inv_of 1 7 5 ''INV00001'' 1000)"
    by (simp add: db_one_def)
  have nt: "newest t_createdAt
      (filter (ptTransaction 7 5 [''PERSONAL_TRAINING'']) (transactions db_one)) =
      Some (txn_of 1 7 5 ''PERSONAL_TRAINING'' 1000)"
    by (simp add: db_one_def ptTransaction_def txn_of_def)
  note th = updateAssignment_overwrites_latest [OF 1 2 3 4 refl,
      where ctx' = "ctx_at 3000" and i' = 1 and b' = body_update and ctx = "ctx_at 2000" and i = 1]
  from th have len: "length (invoices (snd (updateAssignment (ctx_at 3000) 1 body_update
      (snd ?U)))) = length (invoices db_one)"
    by blast
  from th ok have
    "case newest i_createdAt (filter (ptInvoice 7 5) (invoices db_one)) of
       None \<Rightarrow> invoices (snd ?U) = invoices db_one
     | Some iv \<Rightarrow>
         ptInvoice 7 5 iv \<and>
         (\<forall>j\<in>set (invoices db_one). ptInvoice 7 5 j \<longrightarrow> i_createdAt j \<le> i_createdAt iv) \<and>
         invoices (snd ?U) =
           map (\<lambda>j. if j = iv
                     then iv\<lparr>i_amount := 120, dueDate := computeEnd (civil 2024 2 1) 2,
                             items := [ptItem 2 120],
                             i_notes := ''Personal training assignment starting '' @
                                        toLocaleDateString (ctx_at 2000) (civil 2024 2 1),
                             i_updatedAt := now (ctx_at 2000)\<rparr>
                     else j)
             (invoices db_one)"
    by blast
  then have iv: "map i_amount (invoices (snd ?U)) = [120]"
    unfolding n by (simp add: db_one_def)
  from th ok have
    "case newest t_createdAt
            (filter (ptTransaction 7 5 [''PERSONAL_TRAINING'']) (transactions db_one)) of
       None \<Rightarrow> transactions (snd ?U) = transactions db_one
     | Some t \<Rightarrow>
         ptTransaction 7 5 [''PERSONAL_TRAINING''] t \<and>
         (\<forall>u\<in>set (transactions db_one). ptTransaction 7 5 [''PERSONAL_TRAINING''] u \<longrightarrow>
                                        t_createdAt u \<le> t_createdAt t) \<and>
         transactions (snd ?U) =
           map (\<lambda>u. if u = t
                     then t\<lparr>t_amount := 120,
                            t_description := ''Personal training fees for '' @
                                             String_int 2 @ '' month(s)'',
                            transactionDate := now (ctx_at 2000)\<rparr>
                     else u)
             (transactions db_one)"
    by blast
  then have tx: "map t_amount (transactions (snd ?U)) = [120]"
    unfolding nt by (simp add: db_one_def)
  have "map i_amount (invoices db_one) = [100]" "length (invoices db_one) = 1"
    by (simp_all add: db_one_def inv_of_def)
  with ok iv tx len show ?thesis by simp
qed

section \<open>Runs of requests\<close>











end
